theory Spec2Isabelle
  imports Complex_Main "HOL-Library.Log_Nat"
begin

section \<open>Receipt processor: the event-to-document pipeline\<close>

text \<open>
  A shallow embedding of \<^verbatim>\<open>receipt_processor/__init__.py\<close>: the helpers
  \<^verbatim>\<open>get_username_from_db\<close>, \<^verbatim>\<open>get_field_value\<close>,
  \<^verbatim>\<open>get_field_confidence\<close> and the handler \<^verbatim>\<open>func701\<close>.
  Python values are a datatype, \<^verbatim>\<open>None\<close> is a constructor of it (or
  \<open>None\<close> of an option), every \<^verbatim>\<open>raise\<close> is the \<open>Inl\<close> of a sum, and
  what the code does to the outside world (logging, database, blob storage, the
  analysis service, the document database) is an ordered list of effects.
\<close>

subsection \<open>Python strings: split, join, endswith\<close>

text \<open>\<^verbatim>\<open>s.split(sep)\<close> for a one-character separator: never the empty list.\<close>

fun split :: "char \<Rightarrow> string \<Rightarrow> string list" where
  "split sep [] = [[]]"
| "split sep (c # cs) =
     (if c = sep then [] # split sep cs
      else (case split sep cs of
              [] \<Rightarrow> [[c]]
            | p # ps \<Rightarrow> (c # p) # ps))"

text \<open>\<^verbatim>\<open>sep.join(xs)\<close> for a one-character separator.\<close>

fun join :: "char \<Rightarrow> string list \<Rightarrow> string" where
  "join sep [] = []"
| "join sep [x] = x"
| "join sep (x # y # ys) = x @ sep # join sep (y # ys)"

definition endswith :: "string \<Rightarrow> string \<Rightarrow> bool" where
  "endswith s suf \<longleftrightarrow>
     length suf \<le> length s \<and> drop (length s - length suf) s = suf"

subsection \<open>Blob path parsing (func701, lines 144-168)\<close>

text \<open>
  The local variables of the handler after parsing; the specification calls them
  containerName, objectPath, ownerId and subdirectory.
\<close>

record parsed_path =
  container_name :: string
  blob_path :: string
  user_id :: string
  random_subdirectory :: string

datatype parse_result =
    IndexError
  | Placeholder
  | TooFewSegments
  | Parsed parsed_path

definition parse_blob_url :: "string \<Rightarrow> parse_result" where
  "parse_blob_url blob_url =
     (let url_parts = split CHR ''/'' blob_url;
          bp = join CHR ''/'' (drop 4 url_parts)
      in if length url_parts \<le> 3 then IndexError
         else
           let cn = url_parts ! 3
           in if endswith bp ''/.placeholder'' then Placeholder
              else
                let blob_path_parts = split CHR ''/'' bp
                in if length blob_path_parts \<ge> 3
                   then Parsed \<lparr>container_name = cn, blob_path = bp,
                                 user_id = blob_path_parts ! 0,
                                 random_subdirectory = blob_path_parts ! 1\<rparr>
                   else TooFewSegments)"

subsection \<open>Python floats\<close>

text \<open>
  A Python \<^verbatim>\<open>float\<close> is an IEEE 754 binary64 number. A finite one is modelled
  by the rational number it stands for (the two zeros are one value: the handler never
  divides by a float nor reads a sign), the others are the two infinities and NaN. An
  operation on floats computes the exact result and rounds it to the nearest double, a
  tie going to the double with the even mantissa.
\<close>

datatype pyfloat = Finite rat | PosInf | NegInf | NaN

text \<open>The nearest integer, a tie going to the even one.\<close>

definition round_half_even :: "rat \<Rightarrow> int" where
  "round_half_even x =
     (let f = \<lfloor>x\<rfloor>; d = x - of_int f
      in if d < 1 / 2 then f
         else if 1 / 2 < d then f + 1
         else if even f then f else f + 1)"

text \<open>
  The binary exponent of a positive number \<open>x\<close>, that is the \<open>e\<close> with
  \<open>2 ^ e \<le> x < 2 ^ (e + 1)\<close>, read off the bit lengths of numerator and denominator.
  Doubles with this exponent are the multiples of \<open>2 ^ (e - 52)\<close>; below the smallest
  normal exponent \<open>- 1022\<close> the spacing stays that of the subnormal numbers.
\<close>

definition exponent :: "rat \<Rightarrow> int" where
  "exponent x =
     (let d = bitlen (fst (quotient_of x)) - bitlen (snd (quotient_of x))
      in if 2 powi d \<le> x then d else d - 1)"

definition quantum :: "rat \<Rightarrow> rat" where
  "quantum x = 2 powi (max (exponent x) (- 1022) - 52)"

text \<open>The double nearest to a positive number; from \<open>2 ^ 1024\<close> on it is infinity.\<close>

definition nearest :: "rat \<Rightarrow> pyfloat" where
  "nearest x =
     (let y = of_int (round_half_even (x / quantum x)) * quantum x
      in if 2 ^ 1024 \<le> y then PosInf else Finite y)"

definition negate :: "pyfloat \<Rightarrow> pyfloat" where
  "negate a = (case a of Finite x \<Rightarrow> Finite (- x) | PosInf \<Rightarrow> NegInf | NegInf \<Rightarrow> PosInf | NaN \<Rightarrow> NaN)"

text \<open>The double nearest to a rational number: what a float literal such as
  \<^verbatim>\<open>0.9\<close> denotes, and the rounding step of every operation.\<close>

definition binary64 :: "rat \<Rightarrow> pyfloat" where
  "binary64 x =
     (if x = 0 then Finite 0
      else if 0 < x then nearest x
      else negate (nearest (- x)))"

text \<open>\<^verbatim>\<open>a + b\<close> on floats.\<close>

definition float_add :: "pyfloat \<Rightarrow> pyfloat \<Rightarrow> pyfloat" where
  "float_add a b =
     (case (a, b) of
        (Finite x, Finite y) \<Rightarrow> binary64 (x + y)
      | (NaN, _) \<Rightarrow> NaN
      | (_, NaN) \<Rightarrow> NaN
      | (PosInf, NegInf) \<Rightarrow> NaN
      | (NegInf, PosInf) \<Rightarrow> NaN
      | (PosInf, _) \<Rightarrow> PosInf
      | (_, PosInf) \<Rightarrow> PosInf
      | (NegInf, _) \<Rightarrow> NegInf
      | (_, NegInf) \<Rightarrow> NegInf)"

text \<open>
  \<^verbatim>\<open>sum(xs)\<close> on a list of floats: the builtin starts from \<^verbatim>\<open>0\<close> and adds
  the elements from left to right, each addition rounding its result. (From CPython 3.12
  on the builtin also carries a correction term for the rounding errors; for a list of one
  or two floats the result is the same.)
\<close>

definition float_sum :: "pyfloat list \<Rightarrow> pyfloat" where
  "float_sum xs = foldl float_add (Finite 0) xs"

text \<open>
  \<^verbatim>\<open>a / n\<close> for a float \<open>a\<close> and a positive \<^verbatim>\<open>int\<close> \<open>n\<close>: the
  integer is converted to the nearest double, then the quotient is rounded. The handler
  divides only by the length of a non-empty list, so the \<^verbatim>\<open>ZeroDivisionError\<close>
  of \<open>n = 0\<close> is not modelled; nor is the \<^verbatim>\<open>OverflowError\<close> of an integer
  beyond the range of doubles, which no length reaches.
\<close>

definition float_div :: "pyfloat \<Rightarrow> nat \<Rightarrow> pyfloat" where
  "float_div a n =
     (case (a, binary64 (of_nat n)) of
        (Finite x, Finite y) \<Rightarrow> binary64 (x / y)
      | (Finite x, _) \<Rightarrow> Finite 0
      | (a, _) \<Rightarrow> a)"

text \<open>
  \<^verbatim>\<open>round(a, ndigits)\<close> on a float, for \<open>ndigits \<ge> 0\<close>: the value of the
  double is rounded to the nearest multiple of \<open>10 ^ - ndigits\<close>, a tie going to the
  even multiple, and the result is the double nearest to that decimal. Infinities and NaN
  are returned unchanged.
\<close>

definition round_decimal :: "rat \<Rightarrow> nat \<Rightarrow> rat" where
  "round_decimal x ndigits = of_int (round_half_even (x * 10 ^ ndigits)) / 10 ^ ndigits"

definition py_round :: "pyfloat \<Rightarrow> nat \<Rightarrow> pyfloat" where
  "py_round a ndigits =
     (case a of
        Finite x \<Rightarrow> binary64 (round_decimal x ndigits)
      | _ \<Rightarrow> a)"


subsection \<open>Python values and the analysis service's typed fields\<close>

text \<open>
  The values the handler moves around. Every number it meets is a float: the number and
  currency values and the confidences of the analysis service. A dict built by the handler
  is an association list in insertion order (its keys are distinct by construction).
\<close>

datatype pyval =
    PNone
  | PStr string
  | PNum pyfloat
  | PList "pyval list"
  | PDict "(string \<times> pyval) list"

text \<open>
  \<^verbatim>\<open>datetime.date\<close> and \<^verbatim>\<open>datetime.time\<close>: the library keeps
  the year in 1..9999, the month in 1..12, the day in 1..31, the hour below 24, minute and
  second below 60.
\<close>

datatype date = Date (year: nat) (month: nat) (day: nat)

datatype time = Time (hour: nat) (minute: nat) (second: nat)

definition digit :: "nat \<Rightarrow> char" where
  "digit n = ''0123456789'' ! (n mod 10)"

definition pad2 :: "nat \<Rightarrow> string" where
  "pad2 n = [digit (n div 10), digit n]"

definition pad4 :: "nat \<Rightarrow> string" where
  "pad4 n = [digit (n div 1000), digit (n div 100), digit (n div 10), digit n]"

text \<open>\<^verbatim>\<open>d.strftime('%Y-%m-%d')\<close> and \<^verbatim>\<open>t.strftime('%H:%M:%S')\<close>,
  zero-padded.\<close>

definition strftime_date :: "date \<Rightarrow> string" where
  "strftime_date d = pad4 (year d) @ ''-'' @ pad2 (month d) @ ''-'' @ pad2 (day d)"

definition strftime_time :: "time \<Rightarrow> string" where
  "strftime_time t = pad2 (hour t) @ '':'' @ pad2 (minute t) @ '':'' @ pad2 (second t)"

datatype currency = Currency (amount: "pyfloat option")

text \<open>
  A \<^verbatim>\<open>DocumentField\<close>. An attribute that is missing and an attribute that is
  \<^verbatim>\<open>None\<close> take the same branch everywhere in the code
  (\<^verbatim>\<open>hasattr(f, a) and f.a is not None\<close>), so both are \<open>None\<close> here; for
  the generic \<^verbatim>\<open>value\<close> attribute both are \<open>PNone\<close>. A
  \<^verbatim>\<open>value_object\<close> is a dict from sub-field names to fields, read with
  \<open>map_of\<close>.
\<close>

datatype document_field = DocumentField
  (value_string: "string option")
  (value_number: "pyfloat option")
  (value_date: "date option")
  (value_time: "time option")
  (value_currency: "currency option")
  (value_generic: pyval)
  (confidence: "pyfloat option")
  (value_array: "document_field list option")
  (value_object: "(string \<times> document_field) list option")

datatype analyzed_document = AnalyzedDocument (fields: "(string \<times> document_field) list option")

datatype analyze_result = AnalyzeResult (documents: "analyzed_document list option")

subsection \<open>get_field_value and get_field_confidence (lines 96-123)\<close>

definition get_field_value :: "document_field option \<Rightarrow> pyval" where
  "get_field_value fo =
     (case fo of
        None \<Rightarrow> PNone
      | Some field \<Rightarrow>
          (case value_string field of
             Some s \<Rightarrow> PStr s
           | None \<Rightarrow>
          (case value_number field of
             Some n \<Rightarrow> PNum n
           | None \<Rightarrow>
          (case value_date field of
             Some d \<Rightarrow> PStr (strftime_date d)
           | None \<Rightarrow>
          (case value_time field of
             Some t \<Rightarrow> PStr (strftime_time t)
           | None \<Rightarrow>
          (case (case value_currency field of
                   Some cur \<Rightarrow> amount cur
                 | None \<Rightarrow> None) of
             Some a \<Rightarrow> PNum a
           | None \<Rightarrow>
          (if value_generic field \<noteq> PNone then value_generic field
           else PNone)))))))"

definition get_field_confidence :: "document_field option \<Rightarrow> pyfloat option" where
  "get_field_confidence fo =
     (case fo of None \<Rightarrow> None | Some field \<Rightarrow> confidence field)"

subsection \<open>Effects\<close>

datatype level = INFO | WARNING | ERROR

datatype exn =
    KeyError
  | TypeError
  | OtherError string

type_synonym document = "string \<rightharpoonup> pyval"

text \<open>
  What one run does to the outside, in order. \<open>Log lvl msg exc\<close> is a call of
  \<^verbatim>\<open>logging.<lvl>\<close> whose message starts with \<open>msg\<close> (the interpolated
  values are left out) and whose \<^verbatim>\<open>exc_info\<close> flag is \<open>exc\<close>.
  \<open>Resolve\<close> marks the call of the username resolver; the other constructors are
  calls of client libraries, with the arguments the code passes.
\<close>

datatype effect =
    Log level string bool
  | Resolve string
  | MySQLConnect string string string "string option"
  | MySQLExecute string
  | MySQLCursorClose
  | MySQLClose
  | DownloadBlob string string string
  | AnalyzeDocument string string string string
  | CosmosClient string string string string
  | CreateItem document

text \<open>
  The collaborators' behaviour in one run. Each is called at most once per run, so one
  outcome per collaborator describes it. \<open>Some e\<close> or \<open>Inl e\<close> means the call
  raises \<open>e\<close>.
\<close>

record world =
  environ :: "string \<rightharpoonup> string"
  script_dir :: string
  path_exists :: "string \<Rightarrow> bool"
  connect_raises :: "exn option"
  cursor_raises :: "exn option"
  execute_raises :: "exn option"
  fetchone_result :: "exn + string option option"
  cnx_open :: bool
  download_blob :: "exn + string"
  convert_grayscale :: "string \<Rightarrow> exn + string"
  analyze_document :: "exn + analyze_result"
  cosmos_client_raises :: "exn option"
  create_item_raises :: "exn option"
  uuid4 :: string

text \<open>Truthiness of an optional string, as \<^verbatim>\<open>all([...])\<close> tests it.\<close>

definition truthy :: "string option \<Rightarrow> bool" where
  "truthy v = (case v of None \<Rightarrow> False | Some s \<Rightarrow> s \<noteq> [])"

definition path_join :: "string \<Rightarrow> string \<Rightarrow> string" where
  "path_join a b =
     (if a = [] then b else if last a = CHR ''/'' then a @ b else a @ ''/'' @ b)"

subsection \<open>get_username_from_db (lines 17-94)\<close>

text \<open>
  Lines 30-34: the certificate path is the environment's, or the file beside the script.
\<close>

definition ssl_ca_path :: "world \<Rightarrow> string" where
  "ssl_ca_path w =
     (let default_ssl_ca_path = path_join (script_dir w) ''cert_combined_ca.pem''
      in (case environ w ''DB_SSL_CA_PATH'' of
            Some p \<Rightarrow> p
          | None \<Rightarrow> default_ssl_ca_path))"

text \<open>
  Lines 44-55: \<^verbatim>\<open>ssl_options\<close> names the certificate when the file exists and
  stays empty otherwise; a path whose file is missing is logged as an error and the
  connection is attempted without the certificate.
\<close>

definition ssl_handling :: "world \<Rightarrow> string \<Rightarrow> string option \<times> effect list" where
  "ssl_handling w mysql_ssl_ca_path =
     (if mysql_ssl_ca_path \<noteq> [] \<and> path_exists w mysql_ssl_ca_path
      then (Some mysql_ssl_ca_path, [Log INFO ''SSL CA path found at'' False])
      else if mysql_ssl_ca_path \<noteq> []
      then (None, [Log ERROR ''SSL CA path specified but file not found at'' False])
      else (None, [Log INFO ''No SSL CA path provided or found, proceeding with default SSL.'' False]))"

text \<open>
  The body of the \<^verbatim>\<open>try\<close> statement. It yields the effects so far, whether
  \<^verbatim>\<open>cnx\<close> and \<^verbatim>\<open>cursor\<close> have been assigned, and either the
  exception raised (\<open>Inl\<close>) or the value the body leaves in \<^verbatim>\<open>username\<close>
  (\<open>Inr\<close>; the early \<^verbatim>\<open>return None\<close> leaves \<open>None\<close>). The query selects one
  column, so a row is its single value, \<open>None\<close> when the column is NULL.
\<close>

definition try_body ::
  "world \<Rightarrow> string \<Rightarrow> effect list \<times> bool \<times> bool \<times> (exn + string option)" where
  "try_body w uid =
     (let mysql_host = environ w ''MYSQL_HOST'';
          mysql_user = environ w ''MYSQL_USER'';
          mysql_password = environ w ''MYSQL_PASSWORD'';
          mysql_database = environ w ''MYSQL_DATABASE'';
          mysql_ssl_ca_path = ssl_ca_path w;
          t0 = [Log INFO ''Attempting MySQL connection with Host'' False]
      in if \<not> (truthy mysql_host \<and> truthy mysql_user \<and>
                truthy mysql_password \<and> truthy mysql_database)
         then (t0 @ [Log ERROR ''Missing one or more required MySQL environment variables.'' False],
               False, False, Inr None)
         else
           let ssl_options = fst (ssl_handling w mysql_ssl_ca_path);
               t1 = snd (ssl_handling w mysql_ssl_ca_path);
               t2 = t0 @ t1 @
                    [Log INFO ''Connecting to MySQL...'' False,
                     MySQLConnect (the mysql_host) (the mysql_user) (the mysql_database) ssl_options]
           in (case connect_raises w of
                 Some e \<Rightarrow> (t2, False, False, Inl e)
               | None \<Rightarrow>
                   (let t3 = t2 @ [Log INFO ''MySQL connection successful.'' False]
                    in (case cursor_raises w of
                          Some e \<Rightarrow> (t3, True, False, Inl e)
                        | None \<Rightarrow>
                            (let t4 = t3 @ [MySQLExecute uid]
                             in (case execute_raises w of
                                   Some e \<Rightarrow> (t4, True, True, Inl e)
                                 | None \<Rightarrow>
                                     (case fetchone_result w of
                                        Inl e \<Rightarrow> (t4, True, True, Inl e)
                                      | Inr None \<Rightarrow>
                                          (t4 @ [Log WARNING ''No username found for user ID'' False],
                                           True, True, Inr None)
                                      | Inr (Some username) \<Rightarrow>
                                          (t4 @ [Log INFO ''Username found for user ID'' False],
                                           True, True, Inr username))))))))"

text \<open>
  The whole function: the \<^verbatim>\<open>except Exception\<close> clause turns an exception of the
  body into \<^verbatim>\<open>return None\<close>, and the \<^verbatim>\<open>finally\<close> clause closes the
  cursor and the connection when the connection exists and is open. The two
  \<^verbatim>\<open>close\<close> calls of the database driver are taken not to raise. The result is a
  sum, so that a caller sees whether the function raised.
\<close>

definition get_username_from_db :: "world \<Rightarrow> string \<Rightarrow> effect list \<times> (exn + string option)" where
  "get_username_from_db w uid =
     (case try_body w uid of
        (t, cnx, cursor, r) \<Rightarrow>
          let t1 =
                (case r of
                   Inl err \<Rightarrow>
                     t @ [Log ERROR ''AN ERROR OCCURRED IN get_username_from_db'' True]
                 | Inr username \<Rightarrow> t);
              ret = (case r of Inl err \<Rightarrow> None | Inr username \<Rightarrow> username);
              t2 = (if cnx \<and> cnx_open w
                    then (if cursor then [MySQLCursorClose] else []) @
                         [MySQLClose, Log INFO ''MySQL connection closed.'' False]
                    else [])
          in (t1 @ t2, Inr ret))"

subsection \<open>Mapping the analysis result (func701, lines 183-187 and 224-304)\<close>

text \<open>The local variables the mapping fills, and what it logs.\<close>

record extraction =
  fecha_transaccion :: pyval
  monto_total :: pyval
  extracted_items :: "pyval list"
  full_receipt_data :: document
  item_confidences :: "pyfloat list"
  logged :: "effect list"

definition initial :: extraction where
  "initial = \<lparr>fecha_transaccion = PNone, monto_total = PNone, extracted_items = [],
               full_receipt_data = Map.empty, item_confidences = [], logged = []\<rparr>"

definition warn :: "string \<Rightarrow> extraction \<Rightarrow> extraction" where
  "warn msg st = st\<lparr>logged := logged st @ [Log WARNING msg False]\<rparr>"

text \<open>
  One of the four \<^verbatim>\<open>if "Key" in item_doc_field.value_object\<close> blocks (lines
  244-267): it stores the sub-field's value in \<^verbatim>\<open>item_data\<close> and appends its
  confidence, when it has one, to \<^verbatim>\<open>item_confidences\<close>.
\<close>

definition sub_field ::
  "(string \<times> document_field) list \<Rightarrow> string \<Rightarrow> string \<Rightarrow>
   (string \<times> pyval) list \<times> pyfloat list \<Rightarrow> (string \<times> pyval) list \<times> pyfloat list" where
  "sub_field obj key name acc =
     (case acc of
        (item_data, confs) \<Rightarrow>
          (case map_of obj key of
             None \<Rightarrow> (item_data, confs)
           | Some f \<Rightarrow>
               (item_data @ [(name, get_field_value (Some f))],
                (case get_field_confidence (Some f) of
                   None \<Rightarrow> confs
                 | Some c \<Rightarrow> confs @ [c]))))"

text \<open>The body of the loop over \<^verbatim>\<open>items_field.value_array\<close> (lines 242-271).\<close>

definition item_step :: "document_field \<Rightarrow> extraction \<Rightarrow> extraction" where
  "item_step item_doc_field st =
     (case value_object item_doc_field of
        None \<Rightarrow> warn ''Item DocumentField found but no value_object for item.'' st
      | Some obj \<Rightarrow>
          if obj = [] then warn ''Item DocumentField found but no value_object for item.'' st
          else
            (case sub_field obj ''UnitPrice'' ''unitPrice''
                   (sub_field obj ''TotalPrice'' ''totalPrice''
                     (sub_field obj ''Quantity'' ''quantity''
                       (sub_field obj ''Description'' ''description''
                         ([], item_confidences st)))) of
               (item_data, confs) \<Rightarrow>
                 st\<lparr>item_confidences := confs,
                    extracted_items :=
                      (if item_data \<noteq> [] then extracted_items st @ [PDict item_data]
                       else extracted_items st)\<rparr>))"

text \<open>A top-level field copied under its output name (lines 278-293).\<close>

definition copy_field ::
  "(string \<times> document_field) list \<Rightarrow> string \<Rightarrow> string \<Rightarrow> extraction \<Rightarrow> extraction" where
  "copy_field fs key name st =
     (case map_of fs key of
        None \<Rightarrow> st
      | Some f \<Rightarrow>
          st\<lparr>full_receipt_data := (full_receipt_data st)(name \<mapsto> get_field_value (Some f))\<rparr>)"

definition step_fecha :: "(string \<times> document_field) list \<Rightarrow> extraction \<Rightarrow> extraction" where
  "step_fecha fs st =
     (case map_of fs ''FechaTransaccion'' of
        Some f \<Rightarrow>
          st\<lparr>fecha_transaccion := get_field_value (Some f),
             full_receipt_data :=
               (full_receipt_data st)(''fechaTransaccion'' \<mapsto> get_field_value (Some f))\<rparr>
      | None \<Rightarrow> warn ''FechaTransaccion field not found.'' st)"

definition step_monto :: "(string \<times> document_field) list \<Rightarrow> extraction \<Rightarrow> extraction" where
  "step_monto fs st =
     (case map_of fs ''MontoTotal'' of
        Some f \<Rightarrow>
          st\<lparr>monto_total := get_field_value (Some f),
             full_receipt_data :=
               (full_receipt_data st)(''montoTotal'' \<mapsto> get_field_value (Some f))\<rparr>
      | None \<Rightarrow> warn ''MontoTotal field not found.'' st)"

definition step_items :: "(string \<times> document_field) list \<Rightarrow> extraction \<Rightarrow> extraction" where
  "step_items fs st =
     (case map_of fs ''Items'' of
        Some items_field \<Rightarrow>
          (case value_array items_field of
             None \<Rightarrow> warn ''Items field found but its value_array is missing or not a list.'' st
           | Some arr \<Rightarrow>
               if arr = []
               then warn ''Items field found but its value_array is missing or not a list.'' st
               else
                 let st' = fold item_step arr st
                 in st'\<lparr>full_receipt_data :=
                         (full_receipt_data st')(''items'' \<mapsto> PList (extracted_items st'))\<rparr>)
      | None \<Rightarrow> warn ''Items field not found.'' st)"

text \<open>
  The body of \<^verbatim>\<open>for doc in receipt_result.documents\<close> up to its
  \<^verbatim>\<open>break\<close>. A document without a \<^verbatim>\<open>fields\<close> dict makes the first
  membership test raise.
\<close>

definition map_document :: "analyzed_document \<Rightarrow> extraction \<Rightarrow> exn + extraction" where
  "map_document doc st =
     (case analyzed_document.fields doc of
        None \<Rightarrow> Inl TypeError
      | Some fs \<Rightarrow>
          Inr (copy_field fs ''BaseImponible'' ''baseImponible''
              (copy_field fs ''MontoIVA'' ''montoIVA''
              (copy_field fs ''MontoExento'' ''montoExento''
              (copy_field fs ''RIF-CI'' ''rifCI''
              (copy_field fs ''NombreRazon'' ''nombreRazon''
              (copy_field fs ''FacturaNumero'' ''facturaNumero''
              (copy_field fs ''RIF-comercio'' ''rifComercio''
              (copy_field fs ''NombreComercio'' ''nombreComercio''
              (step_items fs (step_monto fs (step_fecha fs st))))))))))))"

text \<open>
  Lines 299-304: \<^verbatim>\<open>round(sum(item_confidences) / len(item_confidences), 4)\<close>, every
  step in float arithmetic.
\<close>

definition score :: "extraction \<Rightarrow> extraction" where
  "score st =
     (if item_confidences st \<noteq> []
      then
        let average_item_confidence =
              float_div (float_sum (item_confidences st)) (length (item_confidences st))
        in st\<lparr>full_receipt_data :=
                (full_receipt_data st)
                  (''itemsConfidenceScore'' \<mapsto> PNum (py_round average_item_confidence 4))\<rparr>
      else
        warn ''No item confidence scores were collected.''
          (st\<lparr>full_receipt_data :=
                (full_receipt_data st)(''itemsConfidenceScore'' \<mapsto> PNone)\<rparr>))"

text \<open>Lines 224-304: only the first document is read.\<close>

definition map_result :: "analyze_result \<Rightarrow> exn + extraction" where
  "map_result receipt_result =
     (case (case documents receipt_result of
              None \<Rightarrow> Inr (warn ''No documents found in receipt_result.'' initial)
            | Some [] \<Rightarrow> Inr (warn ''No documents found in receipt_result.'' initial)
            | Some (doc # _) \<Rightarrow> map_document doc initial) of
        Inl e \<Rightarrow> Inl e
      | Inr st \<Rightarrow> Inr (score st))"

subsection \<open>The handler func701 (lines 125-348)\<close>

record event =
  event_type :: string
  get_json :: "string \<rightharpoonup> string"

text \<open>
  How an invocation ends: a plain \<^verbatim>\<open>return\<close>, the HTTP response of the
  validation handshake (the dict that is serialised into its body, and the status code),
  or an exception that leaves the handler.
\<close>

datatype outcome =
    Returned
  | HttpResponse pyval nat
  | Raised exn

text \<open>
  Lines 194-211: the image is converted to grayscale and re-encoded; when that raises, the
  original bytes are used.
\<close>

definition preprocess :: "world \<Rightarrow> string \<Rightarrow> string \<times> effect list" where
  "preprocess w blob_content =
     (case convert_grayscale w blob_content of
        Inl img_ex \<Rightarrow>
          (blob_content,
           [Log INFO ''Original image size'' False,
            Log WARNING ''Could not pre-process image, using original.'' False])
      | Inr optimized \<Rightarrow>
          (optimized,
           [Log INFO ''Original image size'' False,
            Log INFO ''Optimized image size (grayscale only)'' False]))"

text \<open>
  The body of the \<^verbatim>\<open>try\<close> statement of lines 189-304: fetch the blob,
  preprocess it, call the analysis service, map its result. \<open>Inl\<close> is the exception that reaches the
  \<^verbatim>\<open>except\<close> clause of line 306.
\<close>

definition try_extract ::
  "world \<Rightarrow> parsed_path \<Rightarrow> string \<Rightarrow> string \<Rightarrow> effect list \<times> (exn + extraction)" where
  "try_extract w p doc_int_endpoint doc_int_key =
     (case environ w ''AzureWebJobsStorage'' of
        None \<Rightarrow> ([], Inl KeyError)
      | Some connection_string \<Rightarrow>
          (let t0 = [DownloadBlob connection_string (container_name p) (blob_path p)]
           in (case download_blob w of
                 Inl e \<Rightarrow> (t0, Inl e)
               | Inr blob_content \<Rightarrow>
                   (let content = fst (preprocess w blob_content);
                        t1 = snd (preprocess w blob_content);
                        t2 = t0 @ t1 @
                             [AnalyzeDocument doc_int_endpoint doc_int_key ''TrainingHard1'' content]
                    in (case analyze_document w of
                          Inl e \<Rightarrow> (t2, Inl e)
                        | Inr receipt_result \<Rightarrow>
                            (case map_result receipt_result of
                               Inl e \<Rightarrow> (t2, Inl e)
                             | Inr st \<Rightarrow> (t2 @ logged st, Inr st)))))))"

text \<open>Lines 330-338: the fixed keys first, then every key of \<^verbatim>\<open>full_receipt_data\<close>.\<close>

definition final_cosmos_document ::
  "string \<Rightarrow> parsed_path \<Rightarrow> string option \<Rightarrow> string \<Rightarrow> document \<Rightarrow> document" where
  "final_cosmos_document receipt_document_id p username blob_url frd =
     [''id'' \<mapsto> PStr receipt_document_id,
      ''userId'' \<mapsto> PStr (user_id p),
      ''id_usuario'' \<mapsto> PStr (user_id p),
      ''username'' \<mapsto> (case username of None \<Rightarrow> PNone | Some u \<Rightarrow> PStr u),
      ''directorio'' \<mapsto> PStr (random_subdirectory p),
      ''blobURL'' \<mapsto> PStr blob_url] ++ frd"

text \<open>Lines 314-348: the document database.\<close>

definition save ::
  "world \<Rightarrow> string \<Rightarrow> parsed_path \<Rightarrow> string option \<Rightarrow> extraction \<Rightarrow> effect list \<times> outcome" where
  "save w blob_url p username st =
     (let cosmos_endpoint = environ w ''COSMOS_ENDPOINT'';
          cosmos_key = environ w ''COSMOS_KEY'';
          cosmos_database_name = environ w ''COSMOS_DATABASE_NAME'';
          cosmos_container_name = environ w ''COSMOS_CONTAINER_NAME''
      in if \<not> (truthy cosmos_endpoint \<and> truthy cosmos_key \<and>
                truthy cosmos_database_name \<and> truthy cosmos_container_name)
         then ([Log ERROR ''Missing one or more Cosmos DB connection environment variables.'' False],
               Returned)
         else
           (let t0 = [CosmosClient (the cosmos_endpoint) (the cosmos_key)
                        (the cosmos_database_name) (the cosmos_container_name)];
                failed = [Log ERROR ''An unexpected error occurred during Cosmos DB operation'' True];
                finished = [Log INFO ''--- FUNCTION FINISHED ---'' False]
            in (case cosmos_client_raises w of
                  Some e \<Rightarrow> (t0 @ failed @ finished, Returned)
                | None \<Rightarrow>
                    (let doc = final_cosmos_document (uuid4 w) p username blob_url
                                 (full_receipt_data st)
                     in (case create_item_raises w of
                           Some e \<Rightarrow> (t0 @ [CreateItem doc] @ failed @ finished, Returned)
                         | None \<Rightarrow>
                             (t0 @
                              [CreateItem doc,
                               Log INFO ''Receipt data successfully saved to Cosmos DB with new fields.'' False,
                               Log INFO ''Document saved for user ID'' False] @
                              finished,
                              Returned))))))"

text \<open>
  Lines 170-312, after the path has been parsed. The call of the resolver is not inside a
  \<^verbatim>\<open>try\<close>: an exception of it would leave the handler.
\<close>

definition process :: "world \<Rightarrow> string \<Rightarrow> parsed_path \<Rightarrow> effect list \<times> outcome" where
  "process w blob_url p =
     (let t0 = [Log INFO ''Processing blob for user ID'' False, Resolve (user_id p)];
          resolved = get_username_from_db w (user_id p)
      in (case snd resolved of
            Inl e \<Rightarrow> (t0 @ fst resolved, Raised e)
          | Inr username \<Rightarrow>
              (let t1 = t0 @ fst resolved @
                        (if username = None
                         then [Log WARNING ''Proceeding without username for user ID'' False]
                         else []);
                   doc_int_endpoint = environ w ''DI_ENDPOINT'';
                   doc_int_key = environ w ''DI_KEY''
               in if \<not> (truthy doc_int_endpoint \<and> truthy doc_int_key)
                  then (t1 @ [Log ERROR ''Missing Document Intelligence endpoint or key environment variables.'' False],
                        Returned)
                  else
                    (let extracted = try_extract w p (the doc_int_endpoint) (the doc_int_key);
                         te = fst extracted
                     in (case snd extracted of
                           Inl e \<Rightarrow>
                             (t1 @ te @
                              [Log ERROR ''An error occurred during Document Intelligence processing'' True],
                              Returned)
                         | Inr st \<Rightarrow>
                             if fecha_transaccion st = PNone \<or> monto_total st = PNone
                             then (t1 @ te @
                                   [Log WARNING ''Could not extract all required data for blob'' False],
                                   Returned)
                             else
                               (let saved = save w blob_url p username st
                                in (t1 @ te @ fst saved, snd saved)))))))"

definition func701 :: "world \<Rightarrow> event \<Rightarrow> effect list \<times> outcome" where
  "func701 w event =
     (let t0 = [Log INFO ''--- FUNCTION STARTED ---'' False];
          data = get_json event
      in if event_type event = ''Microsoft.EventGrid.SubscriptionValidationEvent''
         then (t0 @ [Log INFO ''Got SubscriptionValidation event.'' False],
               HttpResponse
                 (PDict [(''validationResponse'',
                          (case data ''validationCode'' of None \<Rightarrow> PNone | Some c \<Rightarrow> PStr c))])
                 200)
         else if event_type event = ''Microsoft.Storage.BlobCreated''
         then
           (case data ''url'' of
              None \<Rightarrow> (t0 @ [Log ERROR ''Blob URL not found in event data.'' False], Returned)
            | Some blob_url \<Rightarrow>
                if blob_url = []
                then (t0 @ [Log ERROR ''Blob URL not found in event data.'' False], Returned)
                else
                  (let t1 = t0 @ [Log INFO ''Processing blob from URL'' False]
                   in (case parse_blob_url blob_url of
                         IndexError \<Rightarrow>
                           (t1 @ [Log ERROR ''Could not parse blob URL'' False], Returned)
                       | Placeholder \<Rightarrow>
                           (t1 @ [Log INFO ''Ignoring placeholder file'' False], Returned)
                       | TooFewSegments \<Rightarrow>
                           (t1 @ [Log ERROR ''Could not extract user ID and directory from blob path'' False],
                            Returned)
                       | Parsed p \<Rightarrow>
                           (let processed = process w blob_url p
                            in (t1 @ fst processed, snd processed)))))
         else (t0, Returned))"

section \<open>What the specification talks about\<close>

subsection \<open>Scalar extraction\<close>

text \<open>
  The six representations of a typed field, in the priority order of the specification:
  string, number, date, time, currency amount, generic value. An unpopulated
  representation is \<open>None\<close>.
\<close>

definition representations :: "document_field \<Rightarrow> pyval option list" where
  "representations f =
     [map_option PStr (value_string f),
      map_option PNum (value_number f),
      map_option (\<lambda>d. PStr (strftime_date d)) (value_date f),
      map_option (\<lambda>t. PStr (strftime_time t)) (value_time f),
      map_option PNum (case value_currency f of None \<Rightarrow> None | Some cur \<Rightarrow> amount cur),
      (if value_generic f = PNone then None else Some (value_generic f))]"

fun first_populated :: "pyval option list \<Rightarrow> pyval" where
  "first_populated [] = PNone"
| "first_populated (None # rs) = first_populated rs"
| "first_populated (Some v # rs) = v"

subsection \<open>Line items and their confidences\<close>

text \<open>The fields of the first document of an analysis result (none when there is no
  document or the document carries no fields).\<close>

definition first_fields :: "analyze_result \<Rightarrow> (string \<times> document_field) list" where
  "first_fields rr =
     (case documents rr of
        Some (doc # _) \<Rightarrow> (case analyzed_document.fields doc of Some fs \<Rightarrow> fs | None \<Rightarrow> [])
      | _ \<Rightarrow> [])"

definition items_of :: "(string \<times> document_field) list \<Rightarrow> document_field list" where
  "items_of fs =
     (case map_of fs ''Items'' of
        Some items_field \<Rightarrow> (case value_array items_field of Some arr \<Rightarrow> arr | None \<Rightarrow> [])
      | None \<Rightarrow> [])"

text \<open>The Items array of the extraction result.\<close>

definition items_array :: "analyze_result \<Rightarrow> document_field list" where
  "items_array rr = items_of (first_fields rr)"

definition item_keys :: "(string \<times> string) list" where
  "item_keys = [(''Description'', ''description''), (''Quantity'', ''quantity''),
                (''TotalPrice'', ''totalPrice''), (''UnitPrice'', ''unitPrice'')]"

text \<open>The sub-fields of an item that the sub-record holds, under their output names.\<close>

definition sub_fields :: "document_field \<Rightarrow> (string \<times> document_field) list" where
  "sub_fields item =
     (case value_object item of
        None \<Rightarrow> []
      | Some obj \<Rightarrow>
          concat (map (\<lambda>(key, name). case map_of obj key of None \<Rightarrow> [] | Some f \<Rightarrow> [(name, f)])
                      item_keys))"

text \<open>An item has a sub-field when its sub-record holds at least one of the four keys.\<close>

definition has_sub_field :: "document_field \<Rightarrow> bool" where
  "has_sub_field item =
     (case value_object item of
        None \<Rightarrow> False
      | Some obj \<Rightarrow>
          list_ex (\<lambda>key. map_of obj key \<noteq> None)
            [''Description'', ''Quantity'', ''TotalPrice'', ''UnitPrice''])"

definition line_item :: "document_field \<Rightarrow> pyval" where
  "line_item item = PDict (map (\<lambda>(name, f). (name, get_field_value (Some f))) (sub_fields item))"

definition sub_confidences :: "document_field \<Rightarrow> pyfloat list" where
  "sub_confidences item =
     concat (map (\<lambda>(name, f). case confidence f of None \<Rightarrow> [] | Some c \<Rightarrow> [c]) (sub_fields item))"




text \<open>The steps of \<open>map_document\<close> on the initial state, for a document with fields.\<close>

definition chain :: "(string \<times> document_field) list \<Rightarrow> extraction" where
  "chain fs = (copy_field fs ''BaseImponible'' ''baseImponible''
              (copy_field fs ''MontoIVA'' ''montoIVA''
              (copy_field fs ''MontoExento'' ''montoExento''
              (copy_field fs ''RIF-CI'' ''rifCI''
              (copy_field fs ''NombreRazon'' ''nombreRazon''
              (copy_field fs ''FacturaNumero'' ''facturaNumero''
              (copy_field fs ''RIF-comercio'' ''rifComercio''
              (copy_field fs ''NombreComercio'' ''nombreComercio''
              (step_items fs (step_monto fs (step_fecha fs initial)))))))))))"

subsection \<open>Kinds of effects\<close>

definition is_log :: "effect \<Rightarrow> bool" where
  "is_log e = (case e of Log _ _ _ \<Rightarrow> True | _ \<Rightarrow> False)"

definition is_create :: "effect \<Rightarrow> bool" where
  "is_create e = (case e of CreateItem _ \<Rightarrow> True | _ \<Rightarrow> False)"

definition is_download :: "effect \<Rightarrow> bool" where
  "is_download e = (case e of DownloadBlob _ _ _ \<Rightarrow> True | _ \<Rightarrow> False)"

definition is_analyze :: "effect \<Rightarrow> bool" where
  "is_analyze e = (case e of AnalyzeDocument _ _ _ _ \<Rightarrow> True | _ \<Rightarrow> False)"

text \<open>Logging and the calls of the database driver: all the resolver does.\<close>

definition is_database :: "effect \<Rightarrow> bool" where
  "is_database e =
     (case e of
        Log _ _ _ \<Rightarrow> True
      | MySQLConnect _ _ _ _ \<Rightarrow> True
      | MySQLExecute _ \<Rightarrow> True
      | MySQLCursorClose \<Rightarrow> True
      | MySQLClose \<Rightarrow> True
      | _ \<Rightarrow> False)"

subsection \<open>The run as the collaborators determine it\<close>

text \<open>
  The value extracted for a top-level field in a run: that of the field in the first
  document of the analysis result, null when the field, the document or the result is
  missing.
\<close>

definition extracted_value :: "world \<Rightarrow> string \<Rightarrow> pyval" where
  "extracted_value w key =
     (case analyze_document w of
        Inl _ \<Rightarrow> PNone
      | Inr rr \<Rightarrow> get_field_value (map_of (first_fields rr) key))"

definition credentials :: "world \<Rightarrow> bool" where
  "credentials w \<longleftrightarrow>
     truthy (environ w ''MYSQL_HOST'') \<and> truthy (environ w ''MYSQL_USER'') \<and>
     truthy (environ w ''MYSQL_PASSWORD'') \<and> truthy (environ w ''MYSQL_DATABASE'')"

definition di_configured :: "world \<Rightarrow> bool" where
  "di_configured w \<longleftrightarrow> truthy (environ w ''DI_ENDPOINT'') \<and> truthy (environ w ''DI_KEY'')"

definition cosmos_configured :: "world \<Rightarrow> bool" where
  "cosmos_configured w \<longleftrightarrow>
     truthy (environ w ''COSMOS_ENDPOINT'') \<and> truthy (environ w ''COSMOS_KEY'') \<and>
     truthy (environ w ''COSMOS_DATABASE_NAME'') \<and> truthy (environ w ''COSMOS_CONTAINER_NAME'')"

text \<open>The username the relational store gives in this run.\<close>

definition username_of :: "world \<Rightarrow> string option" where
  "username_of w =
     (if credentials w \<and> connect_raises w = None \<and> cursor_raises w = None \<and>
         execute_raises w = None
      then (case fetchone_result w of Inr (Some u) \<Rightarrow> u | _ \<Rightarrow> None)
      else None)"

text \<open>
  Extraction succeeds in a run when the storage connection string is configured, the blob
  is fetched, the analysis service answers and its result is mapped; otherwise one of
  them raises.
\<close>

definition extraction_of :: "world \<Rightarrow> exn + extraction" where
  "extraction_of w =
     (case environ w ''AzureWebJobsStorage'' of
        None \<Rightarrow> Inl KeyError
      | Some _ \<Rightarrow>
          (case download_blob w of
             Inl e \<Rightarrow> Inl e
           | Inr _ \<Rightarrow>
               (case analyze_document w of
                  Inl e \<Rightarrow> Inl e
                | Inr rr \<Rightarrow> map_result rr)))"

text \<open>What \<open>process\<close> does before it reads the analysis configuration.\<close>

definition prefix_of :: "world \<Rightarrow> parsed_path \<Rightarrow> effect list" where
  "prefix_of w p =
     [Log INFO ''Processing blob for user ID'' False, Resolve (user_id p)] @
     fst (get_username_from_db w (user_id p)) @
     (if username_of w = None
      then [Log WARNING ''Proceeding without username for user ID'' False]
      else [])"

subsection \<open>Example inputs\<close>

definition string_field :: "string \<Rightarrow> pyfloat \<Rightarrow> document_field" where
  "string_field s c = DocumentField (Some s) None None None None PNone (Some c) None None"

definition number_field :: "pyfloat \<Rightarrow> pyfloat \<Rightarrow> document_field" where
  "number_field n c = DocumentField None (Some n) None None None PNone (Some c) None None"

definition date_field :: "date \<Rightarrow> pyfloat \<Rightarrow> document_field" where
  "date_field d c = DocumentField None None (Some d) None None PNone (Some c) None None"

definition time_field :: "time \<Rightarrow> pyfloat \<Rightarrow> document_field" where
  "time_field t c = DocumentField None None None (Some t) None PNone (Some c) None None"

definition object_field :: "(string \<times> document_field) list \<Rightarrow> document_field" where
  "object_field obj = DocumentField None None None None None PNone None None (Some obj)"

definition array_field :: "document_field list \<Rightarrow> document_field" where
  "array_field arr = DocumentField None None None None None PNone None (Some arr) None"

text \<open>A field populated with a string value and a number value at once.\<close>

definition string_and_number :: document_field where
  "string_and_number =
     DocumentField (Some ''12,50'') (Some (Finite (25 / 2))) None None None PNone
       (Some (binary64 (9 / 10))) None None"

text \<open>
  Two item sub-records: the first holds three of the four sub-fields, with confidences
  0.9, 0.8 and 0.95; the second holds none of them. A confidence written
  \<open>binary64 (9 / 10)\<close> is the float \<^verbatim>\<open>0.9\<close>; the amounts 1, 2, 5 and 12.5 are
  doubles as they stand.
\<close>

definition example_items :: "document_field list" where
  "example_items =
     [object_field [(''Description'', string_field ''Cafe'' (binary64 (9 / 10))),
                    (''Quantity'', number_field (Finite 2) (binary64 (8 / 10))),
                    (''TotalPrice'', number_field (Finite 5) (binary64 (95 / 100)))],
      object_field [(''Tax'', number_field (Finite 1) (binary64 (1 / 2)))]]"

definition example_receipt :: analyze_result where
  "example_receipt =
     AnalyzeResult (Some [AnalyzedDocument (Some
       [(''FechaTransaccion'', date_field (Date 2024 3 5) (binary64 (99 / 100))),
        (''MontoTotal'', number_field (Finite (25 / 2)) (binary64 (97 / 100))),
        (''Items'', array_field example_items)])])"

text \<open>The same receipt without a total amount and without items.\<close>

definition receipt_no_total :: analyze_result where
  "receipt_no_total =
     AnalyzeResult (Some [AnalyzedDocument (Some
       [(''FechaTransaccion'', date_field (Date 2024 3 5) (binary64 (99 / 100))),
        (''NombreComercio'', string_field ''Panaderia'' (binary64 (9 / 10)))])])"

text \<open>A receipt with the required fields and no Items field.\<close>

definition receipt_no_items :: analyze_result where
  "receipt_no_items =
     AnalyzeResult (Some [AnalyzedDocument (Some
       [(''FechaTransaccion'', date_field (Date 2024 3 5) (binary64 (99 / 100))),
        (''MontoTotal'', number_field (Finite (25 / 2)) (binary64 (97 / 100)))])])"


definition example_url :: string where
  "example_url = ''https://acct.blob.core.windows.net/container/user123/subdirABC/receipt.jpg''"

definition example_path :: parsed_path where
  "example_path = \<lparr>container_name = ''container'', blob_path = ''user123/subdirABC/receipt.jpg'',
                    user_id = ''user123'', random_subdirectory = ''subdirABC''\<rparr>"

definition blob_event :: "string \<Rightarrow> event" where
  "blob_event url = \<lparr>event_type = ''Microsoft.Storage.BlobCreated'', get_json = [''url'' \<mapsto> url]\<rparr>"

definition example_environ :: "string \<rightharpoonup> string" where
  "example_environ =
     [''MYSQL_HOST'' \<mapsto> ''db.example'', ''MYSQL_USER'' \<mapsto> ''app'',
      ''MYSQL_PASSWORD'' \<mapsto> ''secret'', ''MYSQL_DATABASE'' \<mapsto> ''users'',
      ''DB_SSL_CA_PATH'' \<mapsto> ''/certs/ca.pem'',
      ''DI_ENDPOINT'' \<mapsto> ''https://di.example'', ''DI_KEY'' \<mapsto> ''key'',
      ''AzureWebJobsStorage'' \<mapsto> ''UseDevelopmentStorage=true'',
      ''COSMOS_ENDPOINT'' \<mapsto> ''https://cosmos.example'', ''COSMOS_KEY'' \<mapsto> ''key'',
      ''COSMOS_DATABASE_NAME'' \<mapsto> ''receipts'', ''COSMOS_CONTAINER_NAME'' \<mapsto> ''items'']"

text \<open>A run in which every collaborator answers.\<close>

definition example_world :: world where
  "example_world =
     \<lparr>environ = example_environ,
      script_dir = ''/home/site/wwwroot/receipt_processor'',
      path_exists = (\<lambda>_. True),
      connect_raises = None,
      cursor_raises = None,
      execute_raises = None,
      fetchone_result = Inr (Some (Some ''alice'')),
      cnx_open = True,
      download_blob = Inr ''image'',
      convert_grayscale = (\<lambda>b. Inr b),
      analyze_document = Inr example_receipt,
      cosmos_client_raises = None,
      create_item_raises = None,
      uuid4 = ''1b4e28ba-2fa1-4d3b-a3f5-ef19b5a7633b''\<rparr>"

text \<open>Runs in which one thing goes wrong.\<close>

definition world_no_total :: world where
  "world_no_total = example_world\<lparr>analyze_document := Inr receipt_no_total\<rparr>"

definition world_no_items :: world where
  "world_no_items = example_world\<lparr>analyze_document := Inr receipt_no_items\<rparr>"

definition world_missing_certificate :: world where
  "world_missing_certificate = example_world\<lparr>path_exists := (\<lambda>_. False)\<rparr>"

definition world_database_down :: world where
  "world_database_down = example_world\<lparr>connect_raises := Some (OtherError ''timed out'')\<rparr>"

definition world_download_fails :: world where
  "world_download_fails = example_world\<lparr>download_blob := Inl (OtherError ''BlobNotFound'')\<rparr>"

definition world_analysis_fails :: world where
  "world_analysis_fails = example_world\<lparr>analyze_document := Inl (OtherError ''ServiceUnavailable'')\<rparr>"

definition world_write_fails :: world where
  "world_write_fails = example_world\<lparr>create_item_raises := Some (OtherError ''Conflict'')\<rparr>"

subsection \<open>What a run collects and composes\<close>



text \<open>What the mapping makes of the example receipts, and the documents composed from it.\<close>

definition example_extraction :: extraction where
  "example_extraction = projr (map_result example_receipt)"

definition extraction_no_items :: extraction where
  "extraction_no_items = projr (map_result receipt_no_items)"



definition document_no_username :: document where
  "document_no_username =
     final_cosmos_document (uuid4 world_database_down) example_path None example_url
       (full_receipt_data example_extraction)"

section \<open>Properties of the embedding\<close>

subsection \<open>Float arithmetic\<close>







lemma round_half_even_of_int [simp]: "round_half_even (of_int m) = m"
  by (simp add: round_half_even_def)








lemma float_add_Finite [simp]: "float_add (Finite x) (Finite y) = binary64 (x + y)"
  by (simp add: float_add_def)














subsection \<open>The handler\<close>

lemma split_ne: "split sep s \<noteq> []"
  by (induction s) (auto split: list.splits)

lemma split_no_sep: "x \<in> set (split sep s) \<Longrightarrow> sep \<notin> set x"
  by (induction s arbitrary: x) (auto split: list.splits if_splits)

lemma split_simple: "sep \<notin> set x \<Longrightarrow> split sep (x @ sep # r) = x # split sep r"
  by (induction x) (auto split: list.splits)

lemma split_simple2: "sep \<notin> set x \<Longrightarrow> split sep x = [x]"
  by (induction x) (auto split: list.splits)

lemma split_join: "xs \<noteq> [] \<Longrightarrow> (\<forall>x\<in>set xs. sep \<notin> set x) \<Longrightarrow> split sep (join sep xs) = xs"
  by (induction sep xs rule: join.induct) (auto simp: split_simple split_simple2)

lemma split_join_drop:
  assumes "n < length (split sep s)"
  shows "split sep (join sep (drop n (split sep s))) = drop n (split sep s)"
proof (rule split_join)
  show "drop n (split sep s) \<noteq> []" using assms by simp
  show "\<forall>x\<in>set (drop n (split sep s)). sep \<notin> set x"
    using split_no_sep in_set_dropD by fast
qed

lemma parsed_segments:
  assumes "parse_blob_url url = Parsed p"
  shows "7 \<le> length (split CHR ''/'' url) \<and> user_id p = split CHR ''/'' url ! 4
        \<and> random_subdirectory p = split CHR ''/'' url ! 5"
proof -
  let ?ps = "split CHR ''/'' url"
  from assms have len: "3 < length ?ps" and bp: "blob_path p = join CHR ''/'' (drop 4 ?ps)"
    and u: "user_id p = split CHR ''/'' (blob_path p) ! 0"
    and r: "random_subdirectory p = split CHR ''/'' (blob_path p) ! 1"
    and l3: "3 \<le> length (split CHR ''/'' (blob_path p))"
    by (auto simp: parse_blob_url_def Let_def split: if_splits)
  show ?thesis
  proof (cases "4 < length ?ps")
    case True
    then have eq: "split CHR ''/'' (blob_path p) = drop 4 ?ps"
      unfolding bp by (rule split_join_drop)
    with l3 u r show ?thesis by auto
  next
    case False
    with len have "drop 4 ?ps = []" by simp
    with bp have "blob_path p = []" by simp
    with l3 show ?thesis by simp
  qed
qed

lemma is_log_Log [simp]: "is_log (Log l m b)"
  by (simp add: is_log_def)

lemma warn_simps [simp]:
  "fecha_transaccion (warn m st) = fecha_transaccion st"
  "monto_total (warn m st) = monto_total st"
  "extracted_items (warn m st) = extracted_items st"
  "full_receipt_data (warn m st) = full_receipt_data st"
  "item_confidences (warn m st) = item_confidences st"
  "logged (warn m st) = logged st @ [Log WARNING m False]"
  by (simp_all add: warn_def)

lemma sub_field_eq:
  "sub_field obj key name (d, c) =
     (d @ (case map_of obj key of None \<Rightarrow> [] | Some f \<Rightarrow> [(name, get_field_value (Some f))]),
      c @ (case map_of obj key of None \<Rightarrow> []
           | Some f \<Rightarrow> (case confidence f of None \<Rightarrow> [] | Some x \<Rightarrow> [x])))"
  by (simp add: sub_field_def get_field_confidence_def split: option.splits)

lemma item_step_confidences:
  "item_confidences (item_step item st) = item_confidences st @ sub_confidences item"
  by (simp add: item_step_def sub_field_eq sub_confidences_def sub_fields_def item_keys_def
           split: option.splits)

lemma item_step_items:
  "extracted_items (item_step item st) =
     extracted_items st @ (if sub_fields item = [] then [] else [line_item item])"
  by (simp add: item_step_def sub_field_eq line_item_def sub_fields_def item_keys_def
           split: option.splits)

lemma item_step_other [simp]:
  "fecha_transaccion (item_step item st) = fecha_transaccion st"
  "monto_total (item_step item st) = monto_total st"
  "full_receipt_data (item_step item st) = full_receipt_data st"
  by (simp_all add: item_step_def sub_field_eq split: option.splits prod.splits)

lemma item_step_logged:
  "list_all is_log (logged st) \<Longrightarrow> list_all is_log (logged (item_step item st))"
  by (simp add: item_step_def sub_field_eq split: option.splits prod.splits)

lemma fold_item_step:
  "item_confidences (fold item_step arr st) = item_confidences st @ concat (map sub_confidences arr)"
  "extracted_items (fold item_step arr st) =
     extracted_items st @ map line_item (filter (\<lambda>i. sub_fields i \<noteq> []) arr)"
  "fecha_transaccion (fold item_step arr st) = fecha_transaccion st"
  "monto_total (fold item_step arr st) = monto_total st"
  "full_receipt_data (fold item_step arr st) = full_receipt_data st"
  by (induction arr arbitrary: st) (simp_all add: item_step_confidences item_step_items)

lemma fold_item_step_logged:
  "list_all is_log (logged st) \<Longrightarrow> list_all is_log (logged (fold item_step arr st))"
  by (induction arr arbitrary: st) (simp_all add: item_step_logged)

lemma copy_field_simps [simp]:
  "fecha_transaccion (copy_field fs key n st) = fecha_transaccion st"
  "monto_total (copy_field fs key n st) = monto_total st"
  "extracted_items (copy_field fs key n st) = extracted_items st"
  "item_confidences (copy_field fs key n st) = item_confidences st"
  "logged (copy_field fs key n st) = logged st"
  "k \<noteq> n \<Longrightarrow> full_receipt_data (copy_field fs key n st) k = full_receipt_data st k"
  by (simp_all add: copy_field_def split: option.splits)

lemma step_fecha_simps [simp]:
  "fecha_transaccion (step_fecha fs st) =
     (case map_of fs ''FechaTransaccion'' of
        None \<Rightarrow> fecha_transaccion st | Some f \<Rightarrow> get_field_value (Some f))"
  "monto_total (step_fecha fs st) = monto_total st"
  "extracted_items (step_fecha fs st) = extracted_items st"
  "item_confidences (step_fecha fs st) = item_confidences st"
  "list_all is_log (logged (step_fecha fs st)) = list_all is_log (logged st)"
  "k \<noteq> ''fechaTransaccion'' \<Longrightarrow> full_receipt_data (step_fecha fs st) k = full_receipt_data st k"
  by (simp_all add: step_fecha_def split: option.splits)

lemma step_monto_simps [simp]:
  "fecha_transaccion (step_monto fs st) = fecha_transaccion st"
  "monto_total (step_monto fs st) =
     (case map_of fs ''MontoTotal'' of
        None \<Rightarrow> monto_total st | Some f \<Rightarrow> get_field_value (Some f))"
  "extracted_items (step_monto fs st) = extracted_items st"
  "item_confidences (step_monto fs st) = item_confidences st"
  "list_all is_log (logged (step_monto fs st)) = list_all is_log (logged st)"
  "k \<noteq> ''montoTotal'' \<Longrightarrow> full_receipt_data (step_monto fs st) k = full_receipt_data st k"
  by (simp_all add: step_monto_def split: option.splits)

lemma step_items_simps [simp]:
  "fecha_transaccion (step_items fs st) = fecha_transaccion st"
  "monto_total (step_items fs st) = monto_total st"
  "extracted_items (step_items fs st) =
     extracted_items st @ map line_item (filter (\<lambda>i. sub_fields i \<noteq> []) (items_of fs))"
  "item_confidences (step_items fs st) =
     item_confidences st @ concat (map sub_confidences (items_of fs))"
  "k \<noteq> ''items'' \<Longrightarrow> full_receipt_data (step_items fs st) k = full_receipt_data st k"
  "items_of fs \<noteq> [] \<Longrightarrow>
     full_receipt_data (step_items fs st) ''items'' = Some (PList (extracted_items (step_items fs st)))"
  by (auto simp: step_items_def items_of_def fold_item_step Let_def split: option.splits)

lemma step_items_logged [simp]:
  "list_all is_log (logged st) \<Longrightarrow> list_all is_log (logged (step_items fs st))"
  by (simp add: step_items_def Let_def fold_item_step_logged split: option.splits)

lemma initial_simps [simp]:
  "fecha_transaccion initial = PNone"
  "monto_total initial = PNone"
  "extracted_items initial = []"
  "item_confidences initial = []"
  "logged initial = []"
  "full_receipt_data initial k = None"
  by (simp_all add: initial_def)

lemma score_simps [simp]:
  "fecha_transaccion (score st) = fecha_transaccion st"
  "monto_total (score st) = monto_total st"
  "extracted_items (score st) = extracted_items st"
  "item_confidences (score st) = item_confidences st"
  "list_all is_log (logged (score st)) = list_all is_log (logged st)"
  "k \<noteq> ''itemsConfidenceScore'' \<Longrightarrow> full_receipt_data (score st) k = full_receipt_data st k"
  "full_receipt_data (score st) ''itemsConfidenceScore'' =
     Some (if item_confidences st = [] then PNone
           else PNum (py_round (float_div (float_sum (item_confidences st))
                                  (length (item_confidences st))) 4))"
  by (simp_all add: score_def Let_def)

lemma items_array_eq: "items_array rr = items_of (first_fields rr)"
  by (simp add: items_array_def)

lemma map_document_Some: "map_document (AnalyzedDocument (Some fs)) initial = Inr st' \<Longrightarrow> st' = chain fs"
  by (simp add: map_document_def chain_def)

lemma chain_facts:
  "item_confidences (chain fs) = concat (map sub_confidences (items_of fs))"
  "extracted_items (chain fs) = map line_item (filter (\<lambda>i. sub_fields i \<noteq> []) (items_of fs))"
  "fecha_transaccion (chain fs) = get_field_value (map_of fs ''FechaTransaccion'')"
  "monto_total (chain fs) = get_field_value (map_of fs ''MontoTotal'')"
  "list_all is_log (logged (chain fs))"
       apply (simp add: chain_def)
      apply (simp add: chain_def)
     apply (simp add: chain_def get_field_value_def split: option.splits)
    apply (simp add: chain_def get_field_value_def split: option.splits)
  apply (simp add: chain_def)
  done

lemma chain_items:
  "items_of fs \<noteq> [] \<Longrightarrow> full_receipt_data (chain fs) ''items'' = Some (PList (extracted_items (chain fs)))"
  by (simp add: chain_def)

lemma chain_fixed_keys:
  "full_receipt_data (chain fs) ''id'' = None"
  "full_receipt_data (chain fs) ''userId'' = None"
  "full_receipt_data (chain fs) ''id_usuario'' = None"
  "full_receipt_data (chain fs) ''username'' = None"
  "full_receipt_data (chain fs) ''directorio'' = None"
  "full_receipt_data (chain fs) ''blobURL'' = None"
  by (simp_all add: chain_def)

lemma map_result_Inr:
  assumes "map_result rr = Inr st"
  shows "st = score (warn ''No documents found in receipt_result.'' initial) \<and> first_fields rr = []
         \<or> st = score (chain (first_fields rr))"
  using assms
  by (auto simp: map_result_def first_fields_def map_document_def chain_def
           split: option.splits list.splits sum.splits)

lemma items_of_Nil [simp]: "items_of [] = []"
  by (simp add: items_of_def)

lemma map_result_facts:
  assumes "map_result rr = Inr st"
  shows "item_confidences st = concat (map sub_confidences (items_array rr))"
    and "extracted_items st = map line_item (filter (\<lambda>i. sub_fields i \<noteq> []) (items_array rr))"
    and "fecha_transaccion st = get_field_value (map_of (first_fields rr) ''FechaTransaccion'')"
    and "monto_total st = get_field_value (map_of (first_fields rr) ''MontoTotal'')"
    and "list_all is_log (logged st)"
    and "full_receipt_data st ''itemsConfidenceScore'' =
           Some (if item_confidences st = [] then PNone
                 else PNum (py_round (float_div (float_sum (item_confidences st))
                                        (length (item_confidences st))) 4))"
    and "items_array rr \<noteq> [] \<Longrightarrow> full_receipt_data st ''items'' = Some (PList (extracted_items st))"
    and "full_receipt_data st ''userId'' = None"
    and "full_receipt_data st ''id_usuario'' = None"
    and "full_receipt_data st ''username'' = None"
proof -
  from map_result_Inr [OF assms]
  have c: "st = score (warn ''No documents found in receipt_result.'' initial) \<and> first_fields rr = []
         \<or> st = score (chain (first_fields rr))" .
  show "item_confidences st = concat (map sub_confidences (items_array rr))"
    using c by (auto simp: items_array_eq chain_facts)
  show "extracted_items st = map line_item (filter (\<lambda>i. sub_fields i \<noteq> []) (items_array rr))"
    using c by (auto simp: items_array_eq chain_facts)
  show "fecha_transaccion st = get_field_value (map_of (first_fields rr) ''FechaTransaccion'')"
    using c by (auto simp: chain_facts get_field_value_def)
  show "monto_total st = get_field_value (map_of (first_fields rr) ''MontoTotal'')"
    using c by (auto simp: chain_facts get_field_value_def)
  show "list_all is_log (logged st)"
    using c by (auto simp: chain_facts)
  show "full_receipt_data st ''itemsConfidenceScore'' =
           Some (if item_confidences st = [] then PNone
                 else PNum (py_round (float_div (float_sum (item_confidences st))
                                        (length (item_confidences st))) 4))"
    using c by auto
  show "items_array rr \<noteq> [] \<Longrightarrow> full_receipt_data st ''items'' = Some (PList (extracted_items st))"
    using c by (auto simp: items_array_eq chain_items)
  show "full_receipt_data st ''userId'' = None"
    using c by (auto simp: chain_fixed_keys)
  show "full_receipt_data st ''id_usuario'' = None"
    using c by (auto simp: chain_fixed_keys)
  show "full_receipt_data st ''username'' = None"
    using c by (auto simp: chain_fixed_keys)
qed

lemma resolver_result:
  "snd (get_username_from_db w uid) =
     Inr (if credentials w \<and> connect_raises w = None \<and> cursor_raises w = None \<and>
             execute_raises w = None
          then (case fetchone_result w of Inr (Some u) \<Rightarrow> u | _ \<Rightarrow> None)
          else None)"
  by (simp add: get_username_from_db_def try_body_def credentials_def Let_def
           split: option.splits sum.splits prod.splits)

lemma ssl_handling_database [simp]: "list_all is_database (snd (ssl_handling w p))"
  by (simp add: ssl_handling_def is_database_def)

lemma preprocess_log [simp]: "list_all is_log (snd (preprocess w b))"
  by (simp add: preprocess_def split: sum.splits)

lemma resolver_trace: "list_all is_database (fst (get_username_from_db w uid))"
  by (simp add: get_username_from_db_def try_body_def is_database_def Let_def
           split: option.splits sum.splits prod.splits)

lemma is_simps [simp]:
  "is_create (CreateItem d)" "\<not> is_create (Log l m b)" "\<not> is_create (Resolve u)"
  "\<not> is_create (DownloadBlob x y z)" "\<not> is_create (AnalyzeDocument x y z v)"
  "\<not> is_create (CosmosClient x y z v)"
  "is_download (DownloadBlob x y z)" "\<not> is_download (Log l m b)" "\<not> is_download (Resolve u)"
  "\<not> is_download (CreateItem d)" "\<not> is_download (AnalyzeDocument x y z v)"
  "\<not> is_download (CosmosClient x y z v)"
  "is_analyze (AnalyzeDocument x y z v)" "\<not> is_analyze (Log l m b)" "\<not> is_analyze (Resolve u)"
  "\<not> is_analyze (CreateItem d)" "\<not> is_analyze (DownloadBlob x y z)"
  "\<not> is_analyze (CosmosClient x y z v)"
  by (simp_all add: is_create_def is_download_def is_analyze_def)

lemma is_log_not_call: "is_log e \<Longrightarrow> \<not> is_create e \<and> \<not> is_download e \<and> \<not> is_analyze e \<and> is_database e"
  by (cases e) (simp_all add: is_log_def is_database_def is_create_def is_download_def is_analyze_def)

lemma is_database_not_call: "is_database e \<Longrightarrow> \<not> is_create e \<and> \<not> is_download e \<and> \<not> is_analyze e"
  by (cases e) (simp_all add: is_database_def is_create_def is_download_def is_analyze_def)

lemma filter_database [simp]:
  assumes "list_all is_database xs"
  shows "filter is_create xs = []" "filter is_download xs = []" "filter is_analyze xs = []"
  using assms by (auto simp: filter_empty_conv list_all_iff dest: is_database_not_call)

lemma filter_log [simp]:
  assumes "list_all is_log xs"
  shows "filter is_create xs = []" "filter is_download xs = []" "filter is_analyze xs = []"
  using assms by (auto simp: filter_empty_conv list_all_iff dest: is_log_not_call)

lemma save_outcome: "snd (save w url p u st) = Returned"
  by (simp add: save_def Let_def split: option.splits)

lemma save_filter:
  "filter is_download (fst (save w url p u st)) = []"
  "filter is_analyze (fst (save w url p u st)) = []"
  "length (filter is_create (fst (save w url p u st))) \<le> 1"
  by (simp_all add: save_def Let_def split: option.splits)

lemma save_create:
  "CreateItem d \<in> set (fst (save w url p u st)) \<longleftrightarrow>
     cosmos_configured w \<and> cosmos_client_raises w = None \<and>
     d = final_cosmos_document (uuid4 w) p u url (full_receipt_data st)"
  by (auto simp: save_def Let_def cosmos_configured_def split: option.splits)

lemma save_create_failed:
  "CreateItem d \<in> set (fst (save w url p u st)) \<Longrightarrow> create_item_raises w = Some e \<Longrightarrow>
     Log ERROR ''An unexpected error occurred during Cosmos DB operation'' True
       \<in> set (fst (save w url p u st))"
  by (auto simp: save_def Let_def split: option.splits if_splits)

lemma try_extract_Inr:
  assumes "snd (try_extract w p a b) = Inr st"
  shows "\<exists>cs blob rr. environ w ''AzureWebJobsStorage'' = Some cs \<and> download_blob w = Inr blob \<and>
           analyze_document w = Inr rr \<and> map_result rr = Inr st \<and>
           fst (try_extract w p a b) =
             [DownloadBlob cs (container_name p) (blob_path p)] @ snd (preprocess w blob) @
             [AnalyzeDocument a b ''TrainingHard1'' (fst (preprocess w blob))] @ logged st"
  using assms by (auto simp: try_extract_def Let_def split: option.splits sum.splits)

lemma try_extract_Inl:
  assumes "snd (try_extract w p a b) = Inl e"
  shows "environ w ''AzureWebJobsStorage'' = None \<and> fst (try_extract w p a b) = []
       \<or> (\<exists>cs. environ w ''AzureWebJobsStorage'' = Some cs \<and> download_blob w = Inl e \<and>
             fst (try_extract w p a b) = [DownloadBlob cs (container_name p) (blob_path p)])
       \<or> (\<exists>cs blob. environ w ''AzureWebJobsStorage'' = Some cs \<and> download_blob w = Inr blob \<and>
             (analyze_document w = Inl e \<or> (\<exists>rr. analyze_document w = Inr rr \<and> map_result rr = Inl e)) \<and>
             fst (try_extract w p a b) =
               [DownloadBlob cs (container_name p) (blob_path p)] @ snd (preprocess w blob) @
               [AnalyzeDocument a b ''TrainingHard1'' (fst (preprocess w blob))])"
  using assms by (auto simp: try_extract_def Let_def split: option.splits sum.splits)

lemma resolver_eq:
  "get_username_from_db w uid = (fst (get_username_from_db w uid), Inr (username_of w))"
  using resolver_result [of w uid] by (simp add: username_of_def prod_eq_iff)

lemma try_extract_snd: "snd (try_extract w p a b) = extraction_of w"
  by (simp add: try_extract_def extraction_of_def Let_def split: option.splits sum.splits)

lemma snd_resolver [simp]: "snd (get_username_from_db w uid) = Inr (username_of w)"
  using resolver_result [of w uid] by (simp add: username_of_def)

lemma process_eq:
  "process w url p =
     (if \<not> di_configured w
      then (prefix_of w p @
            [Log ERROR ''Missing Document Intelligence endpoint or key environment variables.'' False],
            Returned)
      else
        (let te = fst (try_extract w p (the (environ w ''DI_ENDPOINT'')) (the (environ w ''DI_KEY'')))
         in case extraction_of w of
              Inl e \<Rightarrow>
                (prefix_of w p @ te @
                 [Log ERROR ''An error occurred during Document Intelligence processing'' True],
                 Returned)
            | Inr st \<Rightarrow>
                if fecha_transaccion st = PNone \<or> monto_total st = PNone
                then (prefix_of w p @ te @
                      [Log WARNING ''Could not extract all required data for blob'' False],
                      Returned)
                else (prefix_of w p @ te @ fst (save w url p (username_of w) st), Returned)))"
  by (simp add: process_def Let_def di_configured_def prefix_of_def try_extract_snd save_outcome
           split: sum.splits)

lemma prefix_filter [simp]:
  "filter is_create (prefix_of w p) = []"
  "filter is_download (prefix_of w p) = []"
  "filter is_analyze (prefix_of w p) = []"
  using resolver_trace [of w "user_id p"] by (simp_all add: prefix_of_def)

lemma extraction_of_Inr:
  "extraction_of w = Inr st \<Longrightarrow> \<exists>rr. analyze_document w = Inr rr \<and> map_result rr = Inr st"
  by (auto simp: extraction_of_def split: option.splits sum.splits)

lemma try_extract_filter:
  "filter is_create (fst (try_extract w p a b)) = []"
  "length (filter is_download (fst (try_extract w p a b))) \<le> 1"
  "length (filter is_analyze (fst (try_extract w p a b))) \<le> 1"
proof -
  show "filter is_create (fst (try_extract w p a b)) = []"
  proof (cases "snd (try_extract w p a b)")
    case (Inl e)
    from try_extract_Inl [OF this] show ?thesis by auto
  next
    case (Inr st)
    from try_extract_Inr [OF this] obtain rr where "map_result rr = Inr st"
      and "\<exists>cs blob. fst (try_extract w p a b) =
             [DownloadBlob cs (container_name p) (blob_path p)] @ snd (preprocess w blob) @
             [AnalyzeDocument a b ''TrainingHard1'' (fst (preprocess w blob))] @ logged st"
      by blast
    with map_result_facts(5) [of rr st] show ?thesis by auto
  qed
  show "length (filter is_download (fst (try_extract w p a b))) \<le> 1"
  proof (cases "snd (try_extract w p a b)")
    case (Inl e)
    from try_extract_Inl [OF this] show ?thesis by auto
  next
    case (Inr st)
    from try_extract_Inr [OF this] obtain rr where "map_result rr = Inr st"
      and "\<exists>cs blob. fst (try_extract w p a b) =
             [DownloadBlob cs (container_name p) (blob_path p)] @ snd (preprocess w blob) @
             [AnalyzeDocument a b ''TrainingHard1'' (fst (preprocess w blob))] @ logged st"
      by blast
    with map_result_facts(5) [of rr st] show ?thesis by auto
  qed
  show "length (filter is_analyze (fst (try_extract w p a b))) \<le> 1"
  proof (cases "snd (try_extract w p a b)")
    case (Inl e)
    from try_extract_Inl [OF this] show ?thesis by auto
  next
    case (Inr st)
    from try_extract_Inr [OF this] obtain rr where "map_result rr = Inr st"
      and "\<exists>cs blob. fst (try_extract w p a b) =
             [DownloadBlob cs (container_name p) (blob_path p)] @ snd (preprocess w blob) @
             [AnalyzeDocument a b ''TrainingHard1'' (fst (preprocess w blob))] @ logged st"
      by blast
    with map_result_facts(5) [of rr st] show ?thesis by auto
  qed
qed

lemma parse_empty: "parse_blob_url [] = IndexError"
  by (simp add: parse_blob_url_def)

lemma func701_blob:
  assumes "event_type event = ''Microsoft.Storage.BlobCreated''"
    and "get_json event ''url'' = Some url" and "parse_blob_url url = Parsed p"
  shows "func701 w event =
           ([Log INFO ''--- FUNCTION STARTED ---'' False, Log INFO ''Processing blob from URL'' False]
              @ fst (process w url p),
            snd (process w url p))"
proof -
  from assms(3) have "url \<noteq> []" using parse_empty by auto
  with assms show ?thesis by (simp add: func701_def Let_def)
qed

lemma func701_other:
  assumes "\<not> (\<exists>url p. event_type event = ''Microsoft.Storage.BlobCreated'' \<and>
                get_json event ''url'' = Some url \<and> parse_blob_url url = Parsed p)"
  shows "list_all is_log (fst (func701 w event))" and "snd (func701 w event) \<noteq> Raised e"
  using assms
  by (auto simp: func701_def Let_def split: option.splits parse_result.splits)

lemma has_sub_field_iff: "has_sub_field item \<longleftrightarrow> sub_fields item \<noteq> []"
  by (auto simp: has_sub_field_def sub_fields_def item_keys_def split: option.splits)

lemma no_create_mem: "filter is_create xs = [] \<Longrightarrow> CreateItem d \<notin> set xs"
  by (auto simp: filter_empty_conv)

lemma process_outcome: "snd (process w url p) = Returned"
  by (simp add: process_eq Let_def split: sum.splits)

lemma process_counts:
  "length (filter is_download (fst (process w url p))) \<le> 1"
  "length (filter is_analyze (fst (process w url p))) \<le> 1"
  "length (filter is_create (fst (process w url p))) \<le> 1"
  using try_extract_filter(2,3) [of w p "the (environ w ''DI_ENDPOINT'')" "the (environ w ''DI_KEY'')"]
        save_filter(3) [of w url p "username_of w"]
  by (simp_all add: process_eq Let_def try_extract_filter(1) save_filter(1,2) split: sum.splits)

lemma process_create:
  "CreateItem d \<in> set (fst (process w url p)) \<longleftrightarrow>
     di_configured w \<and>
     (\<exists>st. extraction_of w = Inr st \<and> fecha_transaccion st \<noteq> PNone \<and> monto_total st \<noteq> PNone \<and>
           cosmos_configured w \<and> cosmos_client_raises w = None \<and>
           d = final_cosmos_document (uuid4 w) p (username_of w) url (full_receipt_data st))"
proof -
  have a: "CreateItem d \<notin> set (prefix_of w p)"
    by (rule no_create_mem) simp
  have b: "\<And>x y. CreateItem d \<notin> set (fst (try_extract w p x y))"
    by (rule no_create_mem) (simp add: try_extract_filter)
  show ?thesis
    by (cases "extraction_of w") (auto simp: process_eq Let_def a b save_create)
qed

lemma list_ex_filter: "list_ex P xs \<longleftrightarrow> filter P xs \<noteq> []"
  by (simp add: list_ex_iff filter_empty_conv)

lemma process_download_failed:
  assumes "list_ex is_download (fst (process w url p))" and "download_blob w = Inl e"
  shows "Log ERROR ''An error occurred during Document Intelligence processing'' True
           \<in> set (fst (process w url p))"
    and "filter is_analyze (fst (process w url p)) = []"
    and "filter is_create (fst (process w url p)) = []"
proof -
  let ?te = "fst (try_extract w p (the (environ w ''DI_ENDPOINT'')) (the (environ w ''DI_KEY'')))"
  have di: "di_configured w"
  proof (rule ccontr)
    assume "\<not> di_configured w"
    with assms(1) show False by (simp add: process_eq list_ex_filter)
  qed
  from assms(2) have "\<exists>e'. extraction_of w = Inl e'"
    by (simp add: extraction_of_def split: option.splits sum.splits)
  then obtain e' where ex: "extraction_of w = Inl e'" by blast
  then have "snd (try_extract w p (the (environ w ''DI_ENDPOINT'')) (the (environ w ''DI_KEY''))) = Inl e'"
    by (simp add: try_extract_snd)
  from try_extract_Inl [OF this] assms(2) have te: "filter is_analyze ?te = []"
    by auto
  from di ex show "Log ERROR ''An error occurred during Document Intelligence processing'' True
           \<in> set (fst (process w url p))"
    by (simp add: process_eq Let_def)
  from di ex te show "filter is_analyze (fst (process w url p)) = []"
    by (simp add: process_eq Let_def)
  from di ex show "filter is_create (fst (process w url p)) = []"
    by (simp add: process_eq Let_def try_extract_filter)
qed

lemma process_analysis_failed:
  assumes "list_ex is_analyze (fst (process w url p))" and "analyze_document w = Inl e"
  shows "Log ERROR ''An error occurred during Document Intelligence processing'' True
           \<in> set (fst (process w url p))"
    and "filter is_create (fst (process w url p)) = []"
proof -
  have di: "di_configured w"
  proof (rule ccontr)
    assume "\<not> di_configured w"
    with assms(1) show False by (simp add: process_eq list_ex_filter)
  qed
  from assms(2) have "\<exists>e'. extraction_of w = Inl e'"
    by (simp add: extraction_of_def split: option.splits sum.splits)
  then obtain e' where ex: "extraction_of w = Inl e'" by blast
  from di ex show "Log ERROR ''An error occurred during Document Intelligence processing'' True
           \<in> set (fst (process w url p))"
    by (simp add: process_eq Let_def)
  from di ex show "filter is_create (fst (process w url p)) = []"
    by (simp add: process_eq Let_def try_extract_filter)
qed

lemma process_write_failed:
  assumes "list_ex is_create (fst (process w url p))" and "create_item_raises w = Some e"
  shows "Log ERROR ''An unexpected error occurred during Cosmos DB operation'' True
           \<in> set (fst (process w url p))"
proof -
  from assms(1) obtain x where x: "x \<in> set (fst (process w url p))" "is_create x"
    by (auto simp: list_ex_iff)
  from x(2) obtain d where "x = CreateItem d" by (cases x) (simp_all add: is_create_def)
  with x have d: "CreateItem d \<in> set (fst (process w url p))" by simp
  then obtain st where di: "di_configured w" and ex: "extraction_of w = Inr st"
    and rq: "fecha_transaccion st \<noteq> PNone" "monto_total st \<noteq> PNone"
    and dd: "cosmos_configured w" "cosmos_client_raises w = None"
       "d = final_cosmos_document (uuid4 w) p (username_of w) url (full_receipt_data st)"
    by (auto simp: process_create)
  from dd have "CreateItem d \<in> set (fst (save w url p (username_of w) st))"
    by (simp add: save_create)
  from save_create_failed [OF this assms(2)] di ex rq show ?thesis
    by (simp add: process_eq Let_def)
qed

lemma process_download_called:
  assumes "di_configured w" and "environ w ''AzureWebJobsStorage'' = Some cs"
  shows "list_ex is_download (fst (process w url p))"
proof -
  have "list_ex is_download
          (fst (try_extract w p (the (environ w ''DI_ENDPOINT'')) (the (environ w ''DI_KEY''))))"
    using assms(2) by (simp add: try_extract_def Let_def split: sum.splits)
  with assms(1) show ?thesis
    by (simp add: process_eq Let_def split: sum.splits)
qed

lemma process_analyze_called:
  assumes "di_configured w" and "environ w ''AzureWebJobsStorage'' = Some cs"
    and "download_blob w = Inr b"
  shows "list_ex is_analyze (fst (process w url p))"
proof -
  have "list_ex is_analyze
          (fst (try_extract w p (the (environ w ''DI_ENDPOINT'')) (the (environ w ''DI_KEY''))))"
    using assms(2,3) by (simp add: try_extract_def Let_def split: sum.splits)
  with assms(1) show ?thesis
    by (simp add: process_eq Let_def split: sum.splits)
qed

lemma blob_event_simps [simp]:
  "event_type (blob_event url) = ''Microsoft.Storage.BlobCreated''"
  "get_json (blob_event url) ''url'' = Some url"
  by (simp_all add: blob_event_def)

lemma example_parse: "parse_blob_url example_url = Parsed example_path"
  by (simp add: parse_blob_url_def example_url_def example_path_def endswith_def)

lemma func701_example:
  "func701 w (blob_event example_url) =
     ([Log INFO ''--- FUNCTION STARTED ---'' False, Log INFO ''Processing blob from URL'' False]
        @ fst (process w example_url example_path),
      snd (process w example_url example_path))"
  by (rule func701_blob) (simp_all add: example_parse)

lemma create_mem_ex: "CreateItem d \<in> set xs \<Longrightarrow> list_ex is_create xs"
  unfolding list_ex_iff by (rule bexI [of _ "CreateItem d"]) simp_all

lemma func701_cases:
  obtains (blob) url p where "event_type event = ''Microsoft.Storage.BlobCreated''"
      "get_json event ''url'' = Some url" "parse_blob_url url = Parsed p"
      "func701 w event =
         ([Log INFO ''--- FUNCTION STARTED ---'' False, Log INFO ''Processing blob from URL'' False]
            @ fst (process w url p),
          snd (process w url p))"
  | (other) "list_all is_log (fst (func701 w event))" "\<forall>e. snd (func701 w event) \<noteq> Raised e"
proof (cases "\<exists>url p. event_type event = ''Microsoft.Storage.BlobCreated'' \<and>
                get_json event ''url'' = Some url \<and> parse_blob_url url = Parsed p")
  case True
  then obtain url p where ev: "event_type event = ''Microsoft.Storage.BlobCreated''"
      "get_json event ''url'' = Some url" "parse_blob_url url = Parsed p" by blast
  from blob [OF ev func701_blob [OF ev]] show ?thesis .
next
  case False
  from func701_other [OF this] other show ?thesis by blast
qed

lemma example_environ_config:
  assumes "environ w = example_environ"
  shows "di_configured w" "cosmos_configured w" "credentials w"
    "environ w ''AzureWebJobsStorage'' = Some ''UseDevelopmentStorage=true''"
  by (simp_all add: assms di_configured_def cosmos_configured_def credentials_def
        example_environ_def truthy_def)

lemma environ_examples [simp]:
  "environ example_world = example_environ"
  "environ world_no_total = example_environ"
  "environ world_no_items = example_environ"
  "environ world_missing_certificate = example_environ"
  "environ world_database_down = example_environ"
  "environ world_download_fails = example_environ"
  "environ world_analysis_fails = example_environ"
  "environ world_write_fails = example_environ"
  by (simp_all add: example_world_def world_no_total_def world_no_items_def
        world_missing_certificate_def world_database_down_def world_download_fails_def
        world_analysis_fails_def world_write_fails_def)

lemma map_result_example: "map_result example_receipt = Inr example_extraction"
  by (simp add: example_extraction_def map_result_def example_receipt_def map_document_def)

lemma map_result_no_items: "map_result receipt_no_items = Inr extraction_no_items"
  by (simp add: extraction_no_items_def map_result_def receipt_no_items_def map_document_def)

lemma example_extraction_required:
  "fecha_transaccion example_extraction = PStr ''2024-03-05''"
  "monto_total example_extraction = PNum (Finite (25 / 2))"
  using map_result_facts(3,4) [OF map_result_example]
  by (simp_all add: first_fields_def example_receipt_def get_field_value_def date_field_def
        number_field_def strftime_date_def pad2_def pad4_def digit_def)


lemma extraction_of_examples:
  "extraction_of example_world = Inr example_extraction"
  "extraction_of world_database_down = Inr example_extraction"
  "extraction_of world_write_fails = Inr example_extraction"
  "extraction_of world_no_items = Inr extraction_no_items"
  by (simp_all add: extraction_of_def example_environ_def map_result_example map_result_no_items)
     (simp_all add: example_world_def world_database_down_def world_write_fails_def
        world_no_items_def map_result_example map_result_no_items)

lemma final_document_fixed:
  assumes "frd ''userId'' = None" and "frd ''id_usuario'' = None" and "frd ''username'' = None"
  shows "final_cosmos_document i p u url frd ''userId'' = Some (PStr (user_id p))"
    and "final_cosmos_document i p u url frd ''id_usuario'' = Some (PStr (user_id p))"
    and "final_cosmos_document i p u url frd ''username''
           = Some (case u of None \<Rightarrow> PNone | Some x \<Rightarrow> PStr x)"
  using assms by (simp_all add: final_cosmos_document_def map_add_def)




section \<open>The claims\<close>

subsection \<open>Blob path parsing\<close>

text \<open>
  C2. For the URL of the specification the parser yields container \<open>container\<close>, owner
  \<open>user123\<close>, subdirectory \<open>subdirABC\<close> and object path
  \<open>user123/subdirABC/receipt.jpg\<close>. In general, whenever a URL is parsed, the container
  is segment 3 of the URL split on the slash, the object path is the join of the segments
  from index 4 on, the owner is the first and the subdirectory the second segment of the
  object path (which are segments 4 and 5 of the URL).
\<close>

theorem blob_path_parsing:
  "parse_blob_url ''https://acct.blob.core.windows.net/container/user123/subdirABC/receipt.jpg''
     = Parsed \<lparr>container_name = ''container'', blob_path = ''user123/subdirABC/receipt.jpg'',
               user_id = ''user123'', random_subdirectory = ''subdirABC''\<rparr>
   \<and> (parse_blob_url url = Parsed p \<longrightarrow>
        container_name p = split CHR ''/'' url ! 3
      \<and> blob_path p = join CHR ''/'' (drop 4 (split CHR ''/'' url))
      \<and> user_id p = split CHR ''/'' (blob_path p) ! 0
      \<and> random_subdirectory p = split CHR ''/'' (blob_path p) ! 1
      \<and> user_id p = split CHR ''/'' url ! 4
      \<and> random_subdirectory p = split CHR ''/'' url ! 5
      \<and> 7 \<le> length (split CHR ''/'' url))"
proof
  show "parse_blob_url ''https://acct.blob.core.windows.net/container/user123/subdirABC/receipt.jpg''
     = Parsed \<lparr>container_name = ''container'', blob_path = ''user123/subdirABC/receipt.jpg'',
               user_id = ''user123'', random_subdirectory = ''subdirABC''\<rparr>"
    by (simp add: parse_blob_url_def endswith_def)
next
  show "parse_blob_url url = Parsed p \<longrightarrow>
        container_name p = split CHR ''/'' url ! 3
      \<and> blob_path p = join CHR ''/'' (drop 4 (split CHR ''/'' url))
      \<and> user_id p = split CHR ''/'' (blob_path p) ! 0
      \<and> random_subdirectory p = split CHR ''/'' (blob_path p) ! 1
      \<and> user_id p = split CHR ''/'' url ! 4
      \<and> random_subdirectory p = split CHR ''/'' url ! 5
      \<and> 7 \<le> length (split CHR ''/'' url)"
  proof
    assume a: "parse_blob_url url = Parsed p"
    then have "container_name p = split CHR ''/'' url ! 3
      \<and> blob_path p = join CHR ''/'' (drop 4 (split CHR ''/'' url))
      \<and> user_id p = split CHR ''/'' (blob_path p) ! 0
      \<and> random_subdirectory p = split CHR ''/'' (blob_path p) ! 1"
      by (auto simp: parse_blob_url_def Let_def split: if_splits)
    with parsed_segments [OF a] show "container_name p = split CHR ''/'' url ! 3
      \<and> blob_path p = join CHR ''/'' (drop 4 (split CHR ''/'' url))
      \<and> user_id p = split CHR ''/'' (blob_path p) ! 0
      \<and> random_subdirectory p = split CHR ''/'' (blob_path p) ! 1
      \<and> user_id p = split CHR ''/'' url ! 4
      \<and> random_subdirectory p = split CHR ''/'' url ! 5
      \<and> 7 \<le> length (split CHR ''/'' url)"
      by simp
  qed
qed

theorem blob_path_parsing_witness:
  "parse_blob_url ''https://host/c/owner7/dir9/a/b.png''
     = Parsed \<lparr>container_name = ''c'', blob_path = ''owner7/dir9/a/b.png'',
               user_id = ''owner7'', random_subdirectory = ''dir9''\<rparr>
   \<and> split CHR ''/'' ''https://host/c/owner7/dir9/a/b.png'' ! 3 = ''c''
   \<and> join CHR ''/'' (drop 4 (split CHR ''/'' ''https://host/c/owner7/dir9/a/b.png''))
       = ''owner7/dir9/a/b.png''
   \<and> split CHR ''/'' ''https://host/c/owner7/dir9/a/b.png'' ! 4 = ''owner7''
   \<and> split CHR ''/'' ''https://host/c/owner7/dir9/a/b.png'' ! 5 = ''dir9''"
proof -
  have h: "parse_blob_url ''https://host/c/owner7/dir9/a/b.png''
     = Parsed \<lparr>container_name = ''c'', blob_path = ''owner7/dir9/a/b.png'',
               user_id = ''owner7'', random_subdirectory = ''dir9''\<rparr>"
    by (simp add: parse_blob_url_def endswith_def)
  from blob_path_parsing [of "''https://host/c/owner7/dir9/a/b.png''"
      "\<lparr>container_name = ''c'', blob_path = ''owner7/dir9/a/b.png'',
        user_id = ''owner7'', random_subdirectory = ''dir9''\<rparr>"] h
  show ?thesis by simp
qed

subsection \<open>Scalar extraction\<close>

text \<open>
  C4. \<open>get_field_value\<close> returns the first populated representation in the order string,
  number, date rendered as YYYY-MM-DD, time rendered as HH:MM:SS, currency amount, generic
  value, and null when none is populated (or when there is no field); a field with a
  string value returns it whatever else is populated, so a field with a string and a
  number returns the string. The renderings are shown on 5 March 2024 and on 09:05:07.
\<close>

theorem get_field_value_priority:
  "get_field_value None = PNone
   \<and> get_field_value (Some f) = first_populated (representations f)
   \<and> (value_string f = Some s \<longrightarrow> get_field_value (Some f) = PStr s)
   \<and> get_field_value (Some string_and_number) = PStr ''12,50''
   \<and> get_field_value (Some (date_field (Date 2024 3 5) c)) = PStr ''2024-03-05''
   \<and> get_field_value (Some (time_field (Time 9 5 7) c)) = PStr ''09:05:07''"
  by (auto simp: get_field_value_def representations_def string_and_number_def date_field_def
        time_field_def strftime_date_def strftime_time_def pad2_def pad4_def digit_def
        split: option.splits)

theorem get_field_value_priority_witness:
  "value_string string_and_number = Some ''12,50''
   \<and> value_number string_and_number = Some (Finite (25 / 2))
   \<and> get_field_value (Some string_and_number) = PStr ''12,50''
   \<and> first_populated (representations string_and_number) = PStr ''12,50''"
proof -
  have h: "value_string string_and_number = Some ''12,50''"
    by (simp add: string_and_number_def)
  have n: "value_number string_and_number = Some (Finite (25 / 2))"
    by (simp add: string_and_number_def)
  note t = get_field_value_priority [of string_and_number "''12,50''" "Finite 1"]
  from t h have a: "get_field_value (Some string_and_number) = PStr ''12,50''"
    by blast
  from t have "get_field_value (Some string_and_number)
      = first_populated (representations string_and_number)"
    by blast
  with a have b: "first_populated (representations string_and_number) = PStr ''12,50''"
    by simp
  from h n a b show ?thesis by blast
qed

subsection \<open>Required fields\<close>

text \<open>
  C1. In every run in which the value extracted for FechaTransaccion or for MontoTotal is
  null (the field may also be absent from the result, or there may be no result at all),
  the handler never calls the document writer, whatever else was extracted.
\<close>

theorem required_field_gating:
  assumes "extracted_value w ''FechaTransaccion'' = PNone \<or> extracted_value w ''MontoTotal'' = PNone"
  shows "\<forall>d. CreateItem d \<notin> set (fst (func701 w event))"
proof -
  have "filter is_create (fst (func701 w event)) = []"
  proof (cases "\<exists>url p. event_type event = ''Microsoft.Storage.BlobCreated'' \<and>
                  get_json event ''url'' = Some url \<and> parse_blob_url url = Parsed p")
    case False
    from func701_other(1) [OF this] show ?thesis by simp
  next
    case True
    then obtain url p where ev: "event_type event = ''Microsoft.Storage.BlobCreated''"
      "get_json event ''url'' = Some url" "parse_blob_url url = Parsed p" by blast
    have "filter is_create (fst (process w url p)) = []"
    proof (cases "extraction_of w")
      case (Inl e)
      then show ?thesis by (simp add: process_eq Let_def try_extract_filter)
    next
      case (Inr st)
      from extraction_of_Inr [OF this] obtain rr
        where rr: "analyze_document w = Inr rr" "map_result rr = Inr st" by blast
      from assms rr map_result_facts(3,4) [OF rr(2)]
      have "fecha_transaccion st = PNone \<or> monto_total st = PNone"
        by (simp add: extracted_value_def)
      with Inr show ?thesis by (auto simp: process_eq Let_def try_extract_filter)
    qed
    then show ?thesis by (simp add: func701_blob [OF ev])
  qed
  then show ?thesis by (auto simp: filter_empty_conv)
qed

theorem required_field_gating_witness:
  "extracted_value world_no_total ''FechaTransaccion'' = PStr ''2024-03-05''
   \<and> extracted_value world_no_total ''MontoTotal'' = PNone
   \<and> (\<forall>d. CreateItem d \<notin> set (fst (func701 world_no_total (blob_event example_url))))"
proof -
  have f: "extracted_value world_no_total ''FechaTransaccion'' = PStr ''2024-03-05''"
    by (simp add: extracted_value_def world_no_total_def example_world_def receipt_no_total_def
          first_fields_def get_field_value_def date_field_def strftime_date_def pad2_def
          pad4_def digit_def)
  have m: "extracted_value world_no_total ''MontoTotal'' = PNone"
    by (simp add: extracted_value_def world_no_total_def example_world_def receipt_no_total_def
          first_fields_def get_field_value_def)
  from m have "extracted_value world_no_total ''FechaTransaccion'' = PNone
      \<or> extracted_value world_no_total ''MontoTotal'' = PNone" by simp
  from required_field_gating [OF this, of "blob_event example_url"] f m
  show ?thesis by simp
qed


subsection \<open>Confidence aggregation\<close>




subsection \<open>Line items\<close>

text \<open>
  C9. When the analysis result is mapped, the output items are the line items of exactly
  those sub-records of the Items array that hold at least one of Description, Quantity,
  TotalPrice and UnitPrice, in the order of the array; a sub-record that holds none of
  them gives no item. A sub-field counts as extracted when the sub-record holds its key.
  When the array is not empty the list is stored under the key items.
\<close>

theorem line_item_inclusion:
  assumes "map_result rr = Inr st"
  shows "extracted_items st = map line_item (filter has_sub_field (items_array rr))
    \<and> (items_array rr \<noteq> [] \<longrightarrow>
         full_receipt_data st ''items'' = Some (PList (extracted_items st)))"
proof -
  have "(\<lambda>i. sub_fields i \<noteq> []) = has_sub_field"
    by (simp add: fun_eq_iff has_sub_field_iff)
  with map_result_facts(2,7) [OF assms] show ?thesis by simp
qed

theorem line_item_inclusion_witness:
  "map_result example_receipt = Inr (projr (map_result example_receipt))
   \<and> items_array example_receipt = example_items
   \<and> length example_items = 2
   \<and> has_sub_field (example_items ! 0)
   \<and> \<not> has_sub_field (example_items ! 1)
   \<and> extracted_items (projr (map_result example_receipt))
       = [PDict [(''description'', PStr ''Cafe''), (''quantity'', PNum (Finite 2)),
                 (''totalPrice'', PNum (Finite 5))]]
   \<and> full_receipt_data (projr (map_result example_receipt)) ''items''
       = Some (PList [PDict [(''description'', PStr ''Cafe''), (''quantity'', PNum (Finite 2)),
                             (''totalPrice'', PNum (Finite 5))]])"
proof -
  have h: "map_result example_receipt = Inr (projr (map_result example_receipt))"
    by (simp add: map_result_def example_receipt_def map_document_def)
  have i: "items_array example_receipt = example_items"
    by (simp add: items_array_def items_of_def first_fields_def example_receipt_def
          array_field_def)
  have n: "example_items \<noteq> []" "length example_items = 2"
    by (simp_all add: example_items_def)
  have s: "has_sub_field (example_items ! 0)" "\<not> has_sub_field (example_items ! 1)"
    by (simp_all add: example_items_def has_sub_field_def object_field_def)
  have m: "map line_item (filter has_sub_field example_items)
       = [PDict [(''description'', PStr ''Cafe''), (''quantity'', PNum (Finite 2)),
                 (''totalPrice'', PNum (Finite 5))]]"
    by (simp add: example_items_def has_sub_field_def object_field_def line_item_def
          sub_fields_def item_keys_def get_field_value_def string_field_def number_field_def)
  from line_item_inclusion [OF h] i n m
  have "extracted_items (projr (map_result example_receipt))
       = [PDict [(''description'', PStr ''Cafe''), (''quantity'', PNum (Finite 2)),
                 (''totalPrice'', PNum (Finite 5))]]
   \<and> full_receipt_data (projr (map_result example_receipt)) ''items''
       = Some (PList [PDict [(''description'', PStr ''Cafe''), (''quantity'', PNum (Finite 2)),
                             (''totalPrice'', PNum (Finite 5))]])"
    by simp
  with h i n s show ?thesis by blast
qed

subsection \<open>Paths that are not processed\<close>

text \<open>
  C6. For a BlobCreated event whose object path (the join of the URL's segments from
  index 4 on) ends in \<open>/.placeholder\<close>, the handler logs three informational lines and
  returns: it calls neither the resolver, nor the blob store, nor the analysis service,
  nor the document writer, whatever the container and the owner.
\<close>

theorem placeholder_skip:
  assumes "event_type event = ''Microsoft.Storage.BlobCreated''"
    and "get_json event ''url'' = Some url"
    and "endswith (join CHR ''/'' (drop 4 (split CHR ''/'' url))) ''/.placeholder''"
  shows "func701 w event =
           ([Log INFO ''--- FUNCTION STARTED ---'' False,
             Log INFO ''Processing blob from URL'' False,
             Log INFO ''Ignoring placeholder file'' False],
            Returned)"
proof -
  have len: "3 < length (split CHR ''/'' url)"
  proof (rule ccontr)
    assume "\<not> 3 < length (split CHR ''/'' url)"
    then have "drop 4 (split CHR ''/'' url) = []" by simp
    with assms(3) show False by (simp add: endswith_def)
  qed
  then have "url \<noteq> []" by auto
  moreover from len assms(3) have "parse_blob_url url = Placeholder"
    by (simp add: parse_blob_url_def Let_def)
  ultimately show ?thesis using assms(1,2) by (simp add: func701_def Let_def)
qed

theorem placeholder_skip_witness:
  "endswith (join CHR ''/'' (drop 4 (split CHR ''/'' ''https://acct/c/user9/dir/.placeholder'')))
     ''/.placeholder''
   \<and> func701 example_world (blob_event ''https://acct/c/user9/dir/.placeholder'') =
        ([Log INFO ''--- FUNCTION STARTED ---'' False,
          Log INFO ''Processing blob from URL'' False,
          Log INFO ''Ignoring placeholder file'' False],
         Returned)"
proof -
  have e: "event_type (blob_event ''https://acct/c/user9/dir/.placeholder'')
             = ''Microsoft.Storage.BlobCreated''"
    by (simp add: blob_event_def)
  have u: "get_json (blob_event ''https://acct/c/user9/dir/.placeholder'') ''url''
             = Some ''https://acct/c/user9/dir/.placeholder''"
    by (simp add: blob_event_def)
  have p: "endswith (join CHR ''/'' (drop 4 (split CHR ''/'' ''https://acct/c/user9/dir/.placeholder'')))
     ''/.placeholder''"
    by (simp add: endswith_def)
  from placeholder_skip [OF e u p, of example_world] p show ?thesis by simp
qed

text \<open>
  C7. For a BlobCreated event whose object path has fewer than 3 segments, the handler
  returns and everything it did is logging: no username lookup, no blob fetch, no
  analysis, no write.
\<close>

theorem malformed_path_rejected:
  assumes "event_type event = ''Microsoft.Storage.BlobCreated''"
    and "get_json event ''url'' = Some url"
    and "length (split CHR ''/'' (join CHR ''/'' (drop 4 (split CHR ''/'' url)))) < 3"
  shows "snd (func701 w event) = Returned \<and> list_all is_log (fst (func701 w event))"
proof -
  from assms(3) have "\<forall>p. parse_blob_url url \<noteq> Parsed p"
    by (auto simp: parse_blob_url_def Let_def)
  with assms(1,2) show ?thesis
    by (auto simp: func701_def Let_def split: parse_result.splits)
qed

theorem malformed_path_rejected_witness:
  "split CHR ''/'' (join CHR ''/'' (drop 4 (split CHR ''/'' ''https://acct/container/onlyonefile.jpg'')))
     = [''onlyonefile.jpg'']
   \<and> snd (func701 example_world (blob_event ''https://acct/container/onlyonefile.jpg'')) = Returned
   \<and> list_all is_log (fst (func701 example_world (blob_event ''https://acct/container/onlyonefile.jpg'')))"
proof -
  have e: "event_type (blob_event ''https://acct/container/onlyonefile.jpg'')
             = ''Microsoft.Storage.BlobCreated''"
    by (simp add: blob_event_def)
  have u: "get_json (blob_event ''https://acct/container/onlyonefile.jpg'') ''url''
             = Some ''https://acct/container/onlyonefile.jpg''"
    by (simp add: blob_event_def)
  have s: "split CHR ''/'' (join CHR ''/'' (drop 4 (split CHR ''/'' ''https://acct/container/onlyonefile.jpg'')))
     = [''onlyonefile.jpg'']"
    by simp
  then have l: "length (split CHR ''/'' (join CHR ''/'' (drop 4 (split CHR ''/'' ''https://acct/container/onlyonefile.jpg'')))) < 3"
    by simp
  from malformed_path_rejected [OF e u l, of example_world] s show ?thesis by simp
qed


subsection \<open>Failures of the collaborators\<close>

text \<open>
  C8, as the code has it. The handler never lets an exception escape, and it calls the blob
  store, the analysis service and the document writer at most once each (no retry). When
  the blob fetch is attempted and raises, the error is logged with the exception's
  traceback, the handler returns normally, and neither the analysis nor a write follows.
  When the analysis is attempted and raises, the error is logged with the traceback, the
  handler returns normally and no write follows. When the write is attempted and raises,
  the error is logged with the traceback and the handler returns normally.
\<close>

theorem failures_logged_and_returned:
  "snd (func701 w event) \<noteq> Raised x
   \<and> length (filter is_download (fst (func701 w event))) \<le> 1
   \<and> length (filter is_analyze (fst (func701 w event))) \<le> 1
   \<and> length (filter is_create (fst (func701 w event))) \<le> 1
   \<and> (list_ex is_download (fst (func701 w event)) \<and> download_blob w = Inl e \<longrightarrow>
        Log ERROR ''An error occurred during Document Intelligence processing'' True
          \<in> set (fst (func701 w event))
        \<and> snd (func701 w event) = Returned
        \<and> \<not> list_ex is_analyze (fst (func701 w event))
        \<and> \<not> list_ex is_create (fst (func701 w event)))
   \<and> (list_ex is_analyze (fst (func701 w event)) \<and> analyze_document w = Inl e \<longrightarrow>
        Log ERROR ''An error occurred during Document Intelligence processing'' True
          \<in> set (fst (func701 w event))
        \<and> snd (func701 w event) = Returned
        \<and> \<not> list_ex is_create (fst (func701 w event)))
   \<and> (list_ex is_create (fst (func701 w event)) \<and> create_item_raises w = Some e \<longrightarrow>
        Log ERROR ''An unexpected error occurred during Cosmos DB operation'' True
          \<in> set (fst (func701 w event))
        \<and> snd (func701 w event) = Returned)"
proof (cases rule: func701_cases [of event w])
  case other
  then show ?thesis by (simp add: list_ex_filter)
next
  case (blob url p)
  note c = process_counts [of w url p]
  note o = process_outcome [of w url p]
  have d: "list_ex is_download (fst (func701 w event)) \<and> download_blob w = Inl e \<longrightarrow>
        Log ERROR ''An error occurred during Document Intelligence processing'' True
          \<in> set (fst (func701 w event))
        \<and> snd (func701 w event) = Returned
        \<and> \<not> list_ex is_analyze (fst (func701 w event))
        \<and> \<not> list_ex is_create (fst (func701 w event))"
  proof
    assume "list_ex is_download (fst (func701 w event)) \<and> download_blob w = Inl e"
    then have "list_ex is_download (fst (process w url p))" and "download_blob w = Inl e"
      by (simp_all add: blob(4))
    from process_download_failed [OF this] o
    show "Log ERROR ''An error occurred during Document Intelligence processing'' True
          \<in> set (fst (func701 w event))
        \<and> snd (func701 w event) = Returned
        \<and> \<not> list_ex is_analyze (fst (func701 w event))
        \<and> \<not> list_ex is_create (fst (func701 w event))"
      by (simp add: blob(4) list_ex_filter)
  qed
  have a: "list_ex is_analyze (fst (func701 w event)) \<and> analyze_document w = Inl e \<longrightarrow>
        Log ERROR ''An error occurred during Document Intelligence processing'' True
          \<in> set (fst (func701 w event))
        \<and> snd (func701 w event) = Returned
        \<and> \<not> list_ex is_create (fst (func701 w event))"
  proof
    assume "list_ex is_analyze (fst (func701 w event)) \<and> analyze_document w = Inl e"
    then have "list_ex is_analyze (fst (process w url p))" and "analyze_document w = Inl e"
      by (simp_all add: blob(4))
    from process_analysis_failed [OF this] o
    show "Log ERROR ''An error occurred during Document Intelligence processing'' True
          \<in> set (fst (func701 w event))
        \<and> snd (func701 w event) = Returned
        \<and> \<not> list_ex is_create (fst (func701 w event))"
      by (simp add: blob(4) list_ex_filter)
  qed
  have r: "list_ex is_create (fst (func701 w event)) \<and> create_item_raises w = Some e \<longrightarrow>
        Log ERROR ''An unexpected error occurred during Cosmos DB operation'' True
          \<in> set (fst (func701 w event))
        \<and> snd (func701 w event) = Returned"
  proof
    assume "list_ex is_create (fst (func701 w event)) \<and> create_item_raises w = Some e"
    then have "list_ex is_create (fst (process w url p))" and "create_item_raises w = Some e"
      by (simp_all add: blob(4))
    from process_write_failed [OF this] o
    show "Log ERROR ''An unexpected error occurred during Cosmos DB operation'' True
          \<in> set (fst (func701 w event))
        \<and> snd (func701 w event) = Returned"
      by (simp add: blob(4))
  qed
  from c o have "snd (func701 w event) \<noteq> Raised x
   \<and> length (filter is_download (fst (func701 w event))) \<le> 1
   \<and> length (filter is_analyze (fst (func701 w event))) \<le> 1
   \<and> length (filter is_create (fst (func701 w event))) \<le> 1"
    by (simp add: blob(4))
  with d a r show ?thesis by blast
qed

theorem failures_logged_and_returned_witness:
  "download_blob world_download_fails = Inl (OtherError ''BlobNotFound'')
   \<and> list_ex is_download (fst (func701 world_download_fails (blob_event example_url)))
   \<and> Log ERROR ''An error occurred during Document Intelligence processing'' True
        \<in> set (fst (func701 world_download_fails (blob_event example_url)))
   \<and> snd (func701 world_download_fails (blob_event example_url)) = Returned
   \<and> \<not> list_ex is_analyze (fst (func701 world_download_fails (blob_event example_url)))
   \<and> \<not> list_ex is_create (fst (func701 world_download_fails (blob_event example_url)))
   \<and> analyze_document world_analysis_fails = Inl (OtherError ''ServiceUnavailable'')
   \<and> list_ex is_analyze (fst (func701 world_analysis_fails (blob_event example_url)))
   \<and> Log ERROR ''An error occurred during Document Intelligence processing'' True
        \<in> set (fst (func701 world_analysis_fails (blob_event example_url)))
   \<and> snd (func701 world_analysis_fails (blob_event example_url)) = Returned
   \<and> \<not> list_ex is_create (fst (func701 world_analysis_fails (blob_event example_url)))
   \<and> create_item_raises world_write_fails = Some (OtherError ''Conflict'')
   \<and> list_ex is_create (fst (func701 world_write_fails (blob_event example_url)))
   \<and> Log ERROR ''An unexpected error occurred during Cosmos DB operation'' True
        \<in> set (fst (func701 world_write_fails (blob_event example_url)))
   \<and> snd (func701 world_write_fails (blob_event example_url)) = Returned"
proof -
  have d1: "download_blob world_download_fails = Inl (OtherError ''BlobNotFound'')"
    by (simp add: world_download_fails_def example_world_def)
  have d2: "list_ex is_download (fst (func701 world_download_fails (blob_event example_url)))"
    using process_download_called [where w = world_download_fails, OF example_environ_config(1,4)]
    by (simp add: func701_example)
  have a1: "analyze_document world_analysis_fails = Inl (OtherError ''ServiceUnavailable'')"
    by (simp add: world_analysis_fails_def example_world_def)
  have "download_blob world_analysis_fails = Inr ''image''"
    by (simp add: world_analysis_fails_def example_world_def)
  from process_analyze_called [where w = world_analysis_fails, OF example_environ_config(1,4) this]
  have a2: "list_ex is_analyze (fst (func701 world_analysis_fails (blob_event example_url)))"
    by (simp add: func701_example)
  have c1: "create_item_raises world_write_fails = Some (OtherError ''Conflict'')"
    by (simp add: world_write_fails_def example_world_def)
  have "cosmos_client_raises world_write_fails = None"
    by (simp add: world_write_fails_def example_world_def)
  then have "CreateItem (final_cosmos_document (uuid4 world_write_fails) example_path
               (username_of world_write_fails) example_url (full_receipt_data example_extraction))
             \<in> set (fst (process world_write_fails example_url example_path))"
    by (simp add: process_create extraction_of_examples example_extraction_required
          example_environ_config)
  then have "list_ex is_create (fst (process world_write_fails example_url example_path))"
    by (rule create_mem_ex)
  then have c2: "list_ex is_create (fst (func701 world_write_fails (blob_event example_url)))"
    by (simp add: func701_example)
  note t1 = failures_logged_and_returned
              [of world_download_fails "blob_event example_url" KeyError "OtherError ''BlobNotFound''"]
  note t2 = failures_logged_and_returned
              [of world_analysis_fails "blob_event example_url" KeyError "OtherError ''ServiceUnavailable''"]
  note t3 = failures_logged_and_returned
              [of world_write_fails "blob_event example_url" KeyError "OtherError ''Conflict''"]
  from t1 d1 d2 have r1: "Log ERROR ''An error occurred during Document Intelligence processing'' True
        \<in> set (fst (func701 world_download_fails (blob_event example_url)))
   \<and> snd (func701 world_download_fails (blob_event example_url)) = Returned
   \<and> \<not> list_ex is_analyze (fst (func701 world_download_fails (blob_event example_url)))
   \<and> \<not> list_ex is_create (fst (func701 world_download_fails (blob_event example_url)))"
    by blast
  from t2 a1 a2 have r2: "Log ERROR ''An error occurred during Document Intelligence processing'' True
        \<in> set (fst (func701 world_analysis_fails (blob_event example_url)))
   \<and> snd (func701 world_analysis_fails (blob_event example_url)) = Returned
   \<and> \<not> list_ex is_create (fst (func701 world_analysis_fails (blob_event example_url)))"
    by blast
  from t3 c1 c2 have r3: "Log ERROR ''An unexpected error occurred during Cosmos DB operation'' True
        \<in> set (fst (func701 world_write_fails (blob_event example_url)))
   \<and> snd (func701 world_write_fails (blob_event example_url)) = Returned"
    by blast
  from d1 d2 a1 a2 c1 c2 r1 r2 r3 show ?thesis by blast
qed

text \<open>
  C8 as stated says that the invocation ends in failure. In a run whose blob fetch is
  attempted and raises, the handler ends with a plain return: no exception reaches the
  host.
\<close>

theorem download_failure_counterexample:
  "download_blob world_download_fails = Inl (OtherError ''BlobNotFound'')
   \<and> list_ex is_download (fst (func701 world_download_fails (blob_event example_url)))
   \<and> snd (func701 world_download_fails (blob_event example_url)) = Returned"
proof -
  have "download_blob world_download_fails = Inl (OtherError ''BlobNotFound'')"
    by (simp add: world_download_fails_def example_world_def)
  moreover have "list_ex is_download (fst (func701 world_download_fails (blob_event example_url)))"
    using process_download_called [where w = world_download_fails, OF example_environ_config(1,4)]
    by (simp add: func701_example)
  moreover have "snd (func701 world_download_fails (blob_event example_url)) = Returned"
    by (simp add: func701_example process_outcome)
  ultimately show ?thesis by blast
qed

subsection \<open>The username resolver\<close>

text \<open>
  C5, as the code has it. The resolver never raises: it returns the username the store
  gives, and null when the credentials are incomplete, when connecting, creating the
  cursor or the query raises, when fetching the row raises, or when there is no row. A
  missing certificate file is not among these: it has no influence on the result. When
  the resolver yields null for a parsed BlobCreated event, the analysis configuration is
  present, extraction succeeded with both required fields, the document database is
  configured and its client is created, the handler calls the document writer with a
  document whose username is null, and returns.
\<close>

theorem resolver_resilience:
  "snd (get_username_from_db w uid) = Inr (username_of w)
   \<and> (\<not> credentials w \<or> connect_raises w \<noteq> None \<or> cursor_raises w \<noteq> None \<or>
      execute_raises w \<noteq> None \<or> fetchone_result w = Inl e \<or> fetchone_result w = Inr None
        \<longrightarrow> username_of w = None)
   \<and> (event_type event = ''Microsoft.Storage.BlobCreated'' \<and> get_json event ''url'' = Some url \<and>
      parse_blob_url url = Parsed p \<and> username_of w = None \<and> di_configured w \<and>
      extraction_of w = Inr st \<and> fecha_transaccion st \<noteq> PNone \<and> monto_total st \<noteq> PNone \<and>
      cosmos_configured w \<and> cosmos_client_raises w = None
        \<longrightarrow> CreateItem (final_cosmos_document (uuid4 w) p None url (full_receipt_data st))
              \<in> set (fst (func701 w event))
          \<and> final_cosmos_document (uuid4 w) p None url (full_receipt_data st) ''username''
              = Some PNone
          \<and> snd (func701 w event) = Returned)"
proof -
  have a: "snd (get_username_from_db w uid) = Inr (username_of w)"
    by simp
  have b: "\<not> credentials w \<or> connect_raises w \<noteq> None \<or> cursor_raises w \<noteq> None \<or>
      execute_raises w \<noteq> None \<or> fetchone_result w = Inl e \<or> fetchone_result w = Inr None
        \<longrightarrow> username_of w = None"
    by (auto simp: username_of_def)
  have c: "event_type event = ''Microsoft.Storage.BlobCreated'' \<and> get_json event ''url'' = Some url \<and>
      parse_blob_url url = Parsed p \<and> username_of w = None \<and> di_configured w \<and>
      extraction_of w = Inr st \<and> fecha_transaccion st \<noteq> PNone \<and> monto_total st \<noteq> PNone \<and>
      cosmos_configured w \<and> cosmos_client_raises w = None
        \<longrightarrow> CreateItem (final_cosmos_document (uuid4 w) p None url (full_receipt_data st))
              \<in> set (fst (func701 w event))
          \<and> final_cosmos_document (uuid4 w) p None url (full_receipt_data st) ''username''
              = Some PNone
          \<and> snd (func701 w event) = Returned"
  proof
    assume h: "event_type event = ''Microsoft.Storage.BlobCreated'' \<and> get_json event ''url'' = Some url \<and>
      parse_blob_url url = Parsed p \<and> username_of w = None \<and> di_configured w \<and>
      extraction_of w = Inr st \<and> fecha_transaccion st \<noteq> PNone \<and> monto_total st \<noteq> PNone \<and>
      cosmos_configured w \<and> cosmos_client_raises w = None"
    then have ev: "event_type event = ''Microsoft.Storage.BlobCreated''"
      "get_json event ''url'' = Some url" "parse_blob_url url = Parsed p" by simp_all
    from h have "CreateItem (final_cosmos_document (uuid4 w) p None url (full_receipt_data st))
              \<in> set (fst (process w url p))"
      by (simp add: process_create)
    then have 1: "CreateItem (final_cosmos_document (uuid4 w) p None url (full_receipt_data st))
              \<in> set (fst (func701 w event))"
      by (simp add: func701_blob [OF ev])
    from h extraction_of_Inr [of w st] obtain rr where "map_result rr = Inr st" by blast
    from map_result_facts(8,9,10) [OF this]
    have 2: "final_cosmos_document (uuid4 w) p None url (full_receipt_data st) ''username''
              = Some PNone"
      by (simp add: final_document_fixed)
    have 3: "snd (func701 w event) = Returned"
      by (simp add: func701_blob [OF ev] process_outcome)
    from 1 2 3 show "CreateItem (final_cosmos_document (uuid4 w) p None url (full_receipt_data st))
              \<in> set (fst (func701 w event))
          \<and> final_cosmos_document (uuid4 w) p None url (full_receipt_data st) ''username''
              = Some PNone
          \<and> snd (func701 w event) = Returned"
      by blast
  qed
  from a b c show ?thesis by blast
qed

theorem resolver_resilience_witness:
  "connect_raises world_database_down = Some (OtherError ''timed out'')
   \<and> snd (get_username_from_db world_database_down ''user123'') = Inr None
   \<and> CreateItem document_no_username
        \<in> set (fst (func701 world_database_down (blob_event example_url)))
   \<and> document_no_username ''username'' = Some PNone
   \<and> snd (func701 world_database_down (blob_event example_url)) = Returned"
proof -
  have d: "connect_raises world_database_down = Some (OtherError ''timed out'')"
    by (simp add: world_database_down_def example_world_def)
  have k: "cosmos_client_raises world_database_down = None"
    by (simp add: world_database_down_def example_world_def)
  note t = resolver_resilience [where w = world_database_down and uid = "''user123''"
      and event = "blob_event example_url" and url = example_url and p = example_path
      and st = example_extraction and e = KeyError]
  from t d have u: "username_of world_database_down = None" by blast
  from t u have s: "snd (get_username_from_db world_database_down ''user123'') = Inr None"
    by simp
  have "event_type (blob_event example_url) = ''Microsoft.Storage.BlobCreated'' \<and>
      get_json (blob_event example_url) ''url'' = Some example_url \<and>
      parse_blob_url example_url = Parsed example_path \<and> username_of world_database_down = None \<and>
      di_configured world_database_down \<and>
      extraction_of world_database_down = Inr example_extraction \<and>
      fecha_transaccion example_extraction \<noteq> PNone \<and> monto_total example_extraction \<noteq> PNone \<and>
      cosmos_configured world_database_down \<and> cosmos_client_raises world_database_down = None"
    by (simp add: example_parse u example_environ_config extraction_of_examples
          example_extraction_required k)
  with t have "CreateItem document_no_username
        \<in> set (fst (func701 world_database_down (blob_event example_url)))
   \<and> document_no_username ''username'' = Some PNone
   \<and> snd (func701 world_database_down (blob_event example_url)) = Returned"
    unfolding document_no_username_def by blast
  with d s show ?thesis by blast
qed

text \<open>
  C5 as stated lists a missing certificate file among the failures that yield null. In a
  run whose certificate path is set and whose file is missing, the resolver logs the
  error, connects without the certificate and returns the username it finds.
\<close>

theorem missing_certificate_counterexample:
  "ssl_ca_path world_missing_certificate = ''/certs/ca.pem''
   \<and> \<not> path_exists world_missing_certificate (ssl_ca_path world_missing_certificate)
   \<and> Log ERROR ''SSL CA path specified but file not found at'' False
        \<in> set (fst (get_username_from_db world_missing_certificate ''user123''))
   \<and> snd (get_username_from_db world_missing_certificate ''user123'') = Inr (Some ''alice'')"
  by (simp add: get_username_from_db_def try_body_def ssl_ca_path_def ssl_handling_def
        world_missing_certificate_def example_world_def example_environ_def truthy_def Let_def
        username_of_def credentials_def)

subsection \<open>The composed document\<close>



end
